theory Spec2Isabelle
  imports Main
begin

section \<open>JavaScript strings\<close>

text \<open>
  A JavaScript string is a sequence of UTF-16 code units. The embedding works on
  texts whose code units are all below 256 (the Latin-1 range), so that a string is a
  \<open>char list\<close> and \<open>length\<close> is the source's \<open>.length\<close>. Every keyword, selector
  and fallback string of the two widgets is ASCII.
\<close>

text \<open>\<open>String.prototype.toLowerCase\<close>: on the Latin-1 range the Unicode lower-case
  mapping sends A-Z, U+00C0-U+00D6 and U+00D8-U+00DE to the letter 32 places up and
  fixes every other code unit.\<close>

definition lowerCaseTable :: "(char \<times> char) list" where
  "lowerCaseTable =
     [(CHR ''A'', CHR ''a''), (CHR ''B'', CHR ''b''), (CHR ''C'', CHR ''c''), (CHR ''D'', CHR ''d''),
      (CHR ''E'', CHR ''e''), (CHR ''F'', CHR ''f''), (CHR ''G'', CHR ''g''), (CHR ''H'', CHR ''h''),
      (CHR ''I'', CHR ''i''), (CHR ''J'', CHR ''j''), (CHR ''K'', CHR ''k''), (CHR ''L'', CHR ''l''),
      (CHR ''M'', CHR ''m''), (CHR ''N'', CHR ''n''), (CHR ''O'', CHR ''o''), (CHR ''P'', CHR ''p''),
      (CHR ''Q'', CHR ''q''), (CHR ''R'', CHR ''r''), (CHR ''S'', CHR ''s''), (CHR ''T'', CHR ''t''),
      (CHR ''U'', CHR ''u''), (CHR ''V'', CHR ''v''), (CHR ''W'', CHR ''w''), (CHR ''X'', CHR ''x''),
      (CHR ''Y'', CHR ''y''), (CHR ''Z'', CHR ''z''), (CHR 0xC0, CHR 0xE0), (CHR 0xC1, CHR 0xE1),
      (CHR 0xC2, CHR 0xE2), (CHR 0xC3, CHR 0xE3), (CHR 0xC4, CHR 0xE4), (CHR 0xC5, CHR 0xE5),
      (CHR 0xC6, CHR 0xE6), (CHR 0xC7, CHR 0xE7), (CHR 0xC8, CHR 0xE8), (CHR 0xC9, CHR 0xE9),
      (CHR 0xCA, CHR 0xEA), (CHR 0xCB, CHR 0xEB), (CHR 0xCC, CHR 0xEC), (CHR 0xCD, CHR 0xED),
      (CHR 0xCE, CHR 0xEE), (CHR 0xCF, CHR 0xEF), (CHR 0xD0, CHR 0xF0), (CHR 0xD1, CHR 0xF1),
      (CHR 0xD2, CHR 0xF2), (CHR 0xD3, CHR 0xF3), (CHR 0xD4, CHR 0xF4), (CHR 0xD5, CHR 0xF5),
      (CHR 0xD6, CHR 0xF6), (CHR 0xD8, CHR 0xF8), (CHR 0xD9, CHR 0xF9), (CHR 0xDA, CHR 0xFA),
      (CHR 0xDB, CHR 0xFB), (CHR 0xDC, CHR 0xFC), (CHR 0xDD, CHR 0xFD), (CHR 0xDE, CHR 0xFE)]"

definition lowerChar :: "char \<Rightarrow> char" where
  "lowerChar c = (case map_of lowerCaseTable c of Some l \<Rightarrow> l | None \<Rightarrow> c)"

definition toLowerCase :: "string \<Rightarrow> string" where
  "toLowerCase s = map lowerChar s"

text \<open>\<open>String.prototype.includes\<close>: the argument occurs as a contiguous run.\<close>

fun startsWith :: "string \<Rightarrow> string \<Rightarrow> bool" where
  "startsWith s [] = True"
| "startsWith [] (k # ks) = False"
| "startsWith (c # cs) (k # ks) = (c = k \<and> startsWith cs ks)"

fun includes_str :: "string \<Rightarrow> string \<Rightarrow> bool" where
  "includes_str [] k = (k = [])"
| "includes_str (c # cs) k = (startsWith (c # cs) k \<or> includes_str cs k)"

text \<open>\<open>String.prototype.trim\<close> removes white space and line terminators from both
  ends; below 256 these are TAB, LF, VT, FF, CR, SPACE and NO-BREAK SPACE.\<close>

definition isWhiteSpace :: "char \<Rightarrow> bool" where
  "isWhiteSpace c =
     (c = CHR 0x09 \<or> c = CHR 0x0A \<or> c = CHR 0x0B \<or> c = CHR 0x0C \<or> c = CHR 0x0D
      \<or> c = CHR 0x20 \<or> c = CHR 0xA0)"

definition trim :: "string \<Rightarrow> string" where
  "trim s = rev (dropWhile isWhiteSpace (rev (dropWhile isWhiteSpace s)))"

text \<open>\<open>s.split('\n')\<close>: the pieces between line feeds; never the empty array.\<close>

fun split_nl :: "string \<Rightarrow> string list" where
  "split_nl [] = [[]]"
| "split_nl (c # cs) =
     (if c = CHR 0x0A then [] # split_nl cs
      else (case split_nl cs of [] \<Rightarrow> [[c]] | l # ls \<Rightarrow> (c # l) # ls))"

text \<open>\<open>s.substring(0, n)\<close> for a non-negative \<open>n\<close>.\<close>

definition substring0 :: "string \<Rightarrow> nat \<Rightarrow> string" where
  "substring0 s n = take n s"

section \<open>The research-grants widget: classifiers\<close>

definition researchKeywords :: "string list" where
  "researchKeywords =
     [''grant'', ''research'', ''project'', ''funding'', ''FRGS'', ''RACER'', ''LESTARI'',
      ''KPM'', ''UiTM'', ''fundamental'', ''special'', ''autonomous'', ''anomaly'',
      ''detection'', ''streaming'', ''data'', ''e-commerce'', ''rural'', ''products'',
      ''commercialization'', ''autism'', ''journey'', ''directory'', ''repository'',
      ''smart'', ''urban'', ''farming'', ''iot'', ''downtime'', ''analysis'', ''data centre'',
      ''high availability'', ''software'', ''application'', ''services'', ''fog devices'',
      ''radar'', ''reflectivity'', ''images'', ''convective'', ''stratiform'', ''tropical'',
      ''rainfall'', ''estimates'']"

definition isResearchGrantText :: "string \<Rightarrow> bool" where
  "isResearchGrantText text =
     list_ex (\<lambda>keyword. includes_str (toLowerCase text) (toLowerCase keyword)) researchKeywords"

text \<open>The array \<open>lines\<close> of \<open>extractTitle\<close>:
  \<open>text.split('\n').filter(line => line.trim().length > 0)\<close>.\<close>

definition nonEmptyLines :: "string \<Rightarrow> string list" where
  "nonEmptyLines text = filter (\<lambda>line. length (trim line) > 0) (split_nl text)"

definition extractTitle :: "string \<Rightarrow> string" where
  "extractTitle text =
     (let lines = nonEmptyLines text
      in case lines of
           l # _ \<Rightarrow> substring0 (trim l) 100 @ (if length l > 100 then ''...'' else '''')
         | [] \<Rightarrow> substring0 text 100 @ (if length text > 100 then ''...'' else ''''))"

definition extractType :: "string \<Rightarrow> string" where
  "extractType text =
     (if includes_str (toLowerCase text) ''frgs'' then ''FRGS''
      else if includes_str (toLowerCase text) ''racer'' then ''RACER''
      else if includes_str (toLowerCase text) ''lestari'' then ''LESTARI''
      else if includes_str (toLowerCase text) ''kpm'' then ''KPM''
      else if includes_str (toLowerCase text) ''international'' then ''International''
      else if includes_str (toLowerCase text) ''national'' then ''National''
      else ''Research Grant'')"

definition extractStatus :: "string \<Rightarrow> string" where
  "extractStatus text =
     (if includes_str (toLowerCase text) ''completed'' then ''Completed''
      else if includes_str (toLowerCase text) ''active'' \<or> includes_str (toLowerCase text) ''ongoing''
        then ''Active''
      else if includes_str (toLowerCase text) ''2020'' \<or> includes_str (toLowerCase text) ''2021''
            \<or> includes_str (toLowerCase text) ''2022'' \<or> includes_str (toLowerCase text) ''2023''
            \<or> includes_str (toLowerCase text) ''2024'' \<or> includes_str (toLowerCase text) ''2025''
        then ''Active''
      else ''Unknown'')"

section \<open>The DOM, as far as the widgets query it\<close>

text \<open>
  \<open>DOMParser\<close> and \<open>querySelectorAll\<close> belong to the browser. A parsed document is
  taken as its \<open>querySelectorAll\<close> function; an element as its \<open>textContent\<close> and its
  own two query functions; a queried descendant as its \<open>textContent\<close> and \<open>href\<close>
  (\<open>None\<close> is JavaScript's \<open>undefined\<close> on an element that is no link).
\<close>

record node =
  node_textContent :: string
  node_href :: "string option"

record element =
  textContent :: string
  querySelector :: "string \<Rightarrow> node option"
  querySelectorAll :: "string \<Rightarrow> node list"

type_synonym document = "string \<Rightarrow> element list"

datatype error = NetworkError | HttpError nat | BodyError | ParseError

text \<open>The parser is a parameter; \<open>Inl\<close> is an exception raised while parsing.\<close>

type_synonym dom_parser = "string \<Rightarrow> error + document"

text \<open>What \<open>await fetch(...)\<close> gives: \<open>None\<close> when the promise rejects, else the
  response with its \<open>ok\<close> flag, status and body (\<open>None\<close> when \<open>text()\<close> rejects).\<close>

record response =
  resp_ok :: bool
  resp_status :: nat
  resp_text :: "string option"

section \<open>The research-grants widget: extraction\<close>

record grant =
  grant_id :: nat
  grant_title :: string
  grant_details :: string
  grant_type :: string
  grant_status :: string

record ExpertResearchGrants =
  researchGrants :: "grant list"
  isLoading :: bool

definition possibleSelectors :: "string list" where
  "possibleSelectors =
     [''.research-item'', ''.grant-item'', ''table tr'', ''.list-item'', ''.research-list li'']"

definition fallbackResearchGrants :: "grant list" where
  "fallbackResearchGrants =
   [\<lparr>grant_id = 1,
     grant_title = ''Autonomous Anomaly Detection in Streaming Data'',
     grant_details = ''KPM, Autonomous Anomaly Detection in Streaming Data, (Ref: RACER/1/2019/ICT02/UITM//4), Role: Team Member.'',
     grant_type = ''RACER'',
     grant_status = ''Completed''\<rparr>,
    \<lparr>grant_id = 2,
     grant_title = ''Web Based E Commerce System For Rural Products Commercialization In Pulau Tuba Langkawi'',
     grant_details = ''UiTM LESTARI SDG@UiTM Grant, Web Based E Commerce System For Rural Products Commercialization In Pulau Tuba Langkawi, 600-RMC/LESTARI SDG-T 5/3 (142/2019), Role: Team Member.'',
     grant_type = ''LESTARI'',
     grant_status = ''Completed''\<rparr>,
    \<lparr>grant_id = 3,
     grant_title = ''AUTISM JOURNEY DIRECTORY & DATA REPOSITORY SYSTEM'',
     grant_details = ''NASOM, AUTISM JOURNEY DIRECTORY & DATA REPOSITORY SYSTEM, Role: Team Member.'',
     grant_type = ''NASOM'',
     grant_status = ''Completed''\<rparr>,
    \<lparr>grant_id = 4,
     grant_title = ''Portable Iot-based Smart Urban Farming: Technology Use Case Of Uitm And Unikom Bandung'',
     grant_details = ''Title : Portable Iot-based Smart Urban Farming: Technology Use Case Of Uitm And Unikom Bandung. Dr. Muhammad Izzad Bin Ramli, Profesor Dr Nursuriati Binti Jamil, Ts. Muhammad Azizi Bin Mohd Ariffin, 2021 - 2022, Other Grants, Project Member, RM 5,000.00'',
     grant_type = ''Other Grants'',
     grant_status = ''Completed''\<rparr>,
    \<lparr>grant_id = 5,
     grant_title = ''Downtime Analysis For Uitm Data Centre'',
     grant_details = ''Title : Downtime Analysis For Uitm Data Centre. Profesor Dr Jasni Binti Mohamad Zain, Profesor Madya Dr Kamarularifin Bin Abd Jalil, Ts. Muhammad Azizi Bin Mohd Ariffin, 2020 - 2023, Special Research Grant (GPK), Project Member, RM 20,000.00.'',
     grant_type = ''GPK'',
     grant_status = ''Completed''\<rparr>,
    \<lparr>grant_id = 6,
     grant_title = ''A New Technique To Ensure High Availability Of Software Application Services By Utilizing Fog Devices Resource Capabilities'',
     grant_details = ''Title : A New Technique To Ensure High Availability Of Software Application Services By Utilizing Fog Devices Resource Capabilities. Profesor Dr Jasni Binti Mohamad Zain, Luhur Bayuaji, Norkhushaini Bt Awang, Profesor Madya Dr Kamarularifin Bin Abd Jalil, Ts. Muhammad Azizi Bin Mohd Ariffin, 2021 - 2024, Fundamental Research Grant Scheme (FRGS), Project Member, RM 105,300.00'',
     grant_type = ''FRGS'',
     grant_status = ''Active''\<rparr>,
    \<lparr>grant_id = 7,
     grant_title = ''Coupled Hybrid Feature Extraction And Classification Of Radar Reflectivity Images For Convective-stratiform Tropical Rainfall Estimates'',
     grant_details = ''Title : Coupled Hybrid Feature Extraction And Classification Of Radar Reflectivity Images For Convective-stratiform Tropical Rainfall Estimates. Profesor Ts. Dr. Wardah Binti Tahir, Profesor Madya Zaidah Binti Ibrahim, Profesor Madya Ir.ts.dr Jazuri Bin Abdullah, Ir. Dr. Suzana Binti Ramli, Ts. Muhammad Azizi Bin Mohd Ariffin, 2021 - 2024, Fundamental Research Grant Scheme (FRGS), Project Member, RM 137,500.00'',
     grant_type = ''FRGS'',
     grant_status = ''Active''\<rparr>]"

definition loadFallbackResearchGrants :: "ExpertResearchGrants \<Rightarrow> ExpertResearchGrants" where
  "loadFallbackResearchGrants w = w\<lparr>researchGrants := fallbackResearchGrants\<rparr>"

text \<open>The body of \<open>elements.forEach\<close>: each element in document order, pushing onto
  the array built so far.\<close>

fun forEachElement :: "element list \<Rightarrow> grant list \<Rightarrow> grant list" where
  "forEachElement [] gs = gs"
| "forEachElement (element # rest) gs =
     (let text = trim (textContent element)
      in if text \<noteq> [] \<and> length text > 10 \<and> isResearchGrantText text
         then forEachElement rest
                (gs @ [\<lparr>grant_id = length gs + 1,
                        grant_title = extractTitle text,
                        grant_details = text,
                        grant_type = extractType text,
                        grant_status = extractStatus text\<rparr>])
         else forEachElement rest gs)"

text \<open>The loop over the selectors, left by \<open>break\<close> after the first selector that
  matches an element.\<close>

fun forSelectors :: "document \<Rightarrow> string list \<Rightarrow> grant list \<Rightarrow> grant list" where
  "forSelectors doc [] gs = gs"
| "forSelectors doc (selector # rest) gs =
     (let elements = doc selector
      in if length elements > 0 then forEachElement elements gs
         else forSelectors doc rest gs)"

text \<open>\<open>parseResearchGrants\<close>. The source first queries
  \<open>'.research-item, .grant-item, tr'\<close> into a constant that it never reads; the query
  has no effect and is left out.\<close>

definition parseResearchGrants ::
  "dom_parser \<Rightarrow> string \<Rightarrow> ExpertResearchGrants \<Rightarrow> error + ExpertResearchGrants" where
  "parseResearchGrants parseFromString html w =
     (case parseFromString html of
        Inl e \<Rightarrow> Inl e
      | Inr doc \<Rightarrow>
          (let w1 = w\<lparr>researchGrants := []\<rparr>;
               w2 = w1\<lparr>researchGrants := forSelectors doc possibleSelectors (researchGrants w1)\<rparr>
           in Inr (if length (researchGrants w2) = 0 then loadFallbackResearchGrants w2
                   else w2)))"

text \<open>\<open>fetchResearchGrants\<close> after the request has settled: the \<open>try\<close> block either
  ends with the parsed state or raises, the \<open>catch\<close> block loads the fallback, the
  \<open>finally\<close> block clears the flag.\<close>

definition fetchResearchGrants ::
  "dom_parser \<Rightarrow> response option \<Rightarrow> ExpertResearchGrants \<Rightarrow> ExpertResearchGrants" where
  "fetchResearchGrants parseFromString fetched w =
     (let w1 = w\<lparr>isLoading := True\<rparr>;
          tried =
            (case fetched of
               None \<Rightarrow> Inl NetworkError
             | Some resp \<Rightarrow>
                 if \<not> resp_ok resp then Inl (HttpError (resp_status resp))
                 else (case resp_text resp of
                         None \<Rightarrow> Inl BodyError
                       | Some html \<Rightarrow> parseResearchGrants parseFromString html w1));
          w2 = (case tried of Inl e \<Rightarrow> loadFallbackResearchGrants w1 | Inr w' \<Rightarrow> w')
      in w2\<lparr>isLoading := False\<rparr>)"

section \<open>The publications widget: extraction\<close>

record publication =
  pub_id :: nat
  pub_title :: string
  pub_authors :: string
  pub_venue :: string
  pub_year :: string
  pub_citations :: string
  pub_link :: "string option"

record ScholarPublications =
  publications :: "publication list"
  pubs_isLoading :: bool

definition selectors :: "string list" where
  "selectors = [''.gsc_a_tr'', ''.gsc_a_t'', ''.gsc_a_at'', ''tr[data-rid]'', ''.gsc_a_tc'']"

definition fallbackPublications :: "publication list" where
  "fallbackPublications =
   [\<lparr>pub_id = 1,
     pub_title = ''Network traffic profiling using data mining technique in campus environment'',
     pub_authors = ''M. A. M. Ariffin, R. Ishak, S. A. Ahmad, and Z. Kasiran'',
     pub_venue = ''International Journal of Advanced Trends in Computer Science and Engineering'',
     pub_year = ''2020'', pub_citations = ''15'', pub_link = Some ''#''\<rparr>,
    \<lparr>pub_id = 2,
     pub_title = ''Data leakage detection in cloud computing platform'',
     pub_authors = ''M. A. M. Ariffin, K. A. Rahman, M. Y. Darus, N. Awang, and Z. Kasiran'',
     pub_venue = ''International Journal of Advanced Trends in Computer Science and Engineering'',
     pub_year = ''2019'', pub_citations = ''12'', pub_link = Some ''#''\<rparr>,
    \<lparr>pub_id = 3,
     pub_title = ''API Vulnerabilities In Cloud Computing Platform: Attack And Detection'',
     pub_authors = ''M. A. M. Ariffin, M. F. Ibrahim and Z. Kasiran'',
     pub_venue = ''International Journal of Engineering Trends and Technology (IJETT)'',
     pub_year = ''2020'', pub_citations = ''8'', pub_link = Some ''#''\<rparr>,
    \<lparr>pub_id = 4,
     pub_title = ''Multi-level resilience in networked environments: Concepts & principles'',
     pub_authors = ''M. A. M. Ariffin, A. K. Marnerides, and A. U. Mauthe'',
     pub_venue = ''2017 14th IEEE Annual Consumer Communications and Networking Conference'',
     pub_year = ''2017'', pub_citations = ''25'', pub_link = Some ''#''\<rparr>,
    \<lparr>pub_id = 5,
     pub_title = ''Automatic Climate Control for Mushroom Cultivation using IoT Approach'',
     pub_authors = ''Ariffin, M., Ramli, M., Amin, M., Ismail, M., Zainol, Z., Ahmad, N., & Jamil, N.'',
     pub_venue = ''2020 IEEE 10th International Conference on System Engineering and Technology (ICSET)'',
     pub_year = ''2020'', pub_citations = ''18'', pub_link = Some ''#''\<rparr>,
    \<lparr>pub_id = 6,
     pub_title = ''IoT-Based Flash Flood Detection and Alert Using TensorFlow'',
     pub_authors = ''Rashid, A.A., Ariffin, M.A.M., Kasiran, Z.'',
     pub_venue = ''Proceedings - 2021 11th IEEE International Conference on Control System, Computing and Engineering'',
     pub_year = ''2021'', pub_citations = ''10'', pub_link = Some ''#''\<rparr>,
    \<lparr>pub_id = 7,
     pub_title = ''Local File Inclusion Vulnerability Scanner with Tor Proxy'',
     pub_authors = ''K. A. H. H. B. C. K. M. Sahidi, M. A. M. Ariffin, M. I. Ramli and Z. Kasiran'',
     pub_venue = ''2021 IEEE International Conference on Signal and Image Processing Applications (ICSIPA)'',
     pub_year = ''2021'', pub_citations = ''5'', pub_link = Some ''#''\<rparr>,
    \<lparr>pub_id = 8,
     pub_title = ''A Case Study On Digital Divide And Access To Information Communication Technologies (Icts) In Pulau Tuba, Langkawi, Malaysia'',
     pub_authors = ''Et. al., M.'',
     pub_venue = ''Turkish Journal Of Computer And Mathematics Education (TURCOMAT)'',
     pub_year = ''2021'', pub_citations = ''7'', pub_link = Some ''#''\<rparr>,
    \<lparr>pub_id = 9,
     pub_title = ''Detecting Anomaly in IoT Devices using Multi-Threaded Autonomous Anomaly Detection'',
     pub_authors = ''MYI Basheer, AM Ali, NHA Hamid, MAM Ariffin, R Osman, S Nordin'',
     pub_venue = ''2021 4th International Symposium on Agents, Multi-Agent Systems and Robotics'',
     pub_year = ''2021'', pub_citations = ''3'', pub_link = Some ''#''\<rparr>,
    \<lparr>pub_id = 10,
     pub_title = ''Implementation Of Dynamic Honeypot On Raspberry Pi'',
     pub_authors = ''ADI RIDZAN ADNAN, MUHAMMAD AZIZI BIN MOHD ARIFFIN'',
     pub_venue = ''i-IDeA 2020 - 5TH INTERNATIONAL INNOVATION, DESIGN & ARTICULATION'',
     pub_year = ''2021'', pub_citations = ''2'', pub_link = Some ''#''\<rparr>]"

definition loadFallbackPublications :: "ScholarPublications \<Rightarrow> ScholarPublications" where
  "loadFallbackPublications w = w\<lparr>publications := fallbackPublications\<rparr>"

text \<open>\<open>a || b\<close> on two element references, of which \<open>null\<close> and \<open>undefined\<close> are
  \<open>None\<close>; and \<open>xs[i]\<close>, which is \<open>undefined\<close> out of range.\<close>

definition orElse :: "'a option \<Rightarrow> 'a option \<Rightarrow> 'a option" where
  "orElse a b = (case a of Some x \<Rightarrow> Some x | None \<Rightarrow> b)"

definition at_index :: "'a list \<Rightarrow> nat \<Rightarrow> 'a option" where
  "at_index xs i = (if i < length xs then Some (xs ! i) else None)"

text \<open>The loop that picks the element set: \<open>publicationElements\<close> starts empty, and
  is the last, empty, query result when no selector matches.\<close>

fun firstMatching :: "document \<Rightarrow> string list \<Rightarrow> element list" where
  "firstMatching doc [] = []"
| "firstMatching doc (selector # rest) =
     (let publicationElements = doc selector
      in if length publicationElements > 0 then publicationElements
         else firstMatching doc rest)"

text \<open>The callback of \<open>Array.from(publicationElements).map\<close>.\<close>

definition toPublication :: "element \<Rightarrow> nat \<Rightarrow> publication" where
  \<open>toPublication element index =
     (let titleElement =
            orElse (querySelector element ''.gsc_a_at'')
              (orElse (querySelector element ''a[href*="scholar"]'')
                 (querySelector element ''.gsc_a_t a''));
          authorsElement =
            orElse (querySelector element ''.gs_gray'')
              (querySelector element ''.gsc_a_at + .gs_gray'');
          venueElement =
            orElse (querySelector element ''.gs_gray:last-child'')
              (at_index (querySelectorAll element ''.gs_gray'') 1);
          yearElement =
            orElse (querySelector element ''.gsc_a_y'') (querySelector element ''.gsc_a_yc'');
          citationsElement =
            orElse (querySelector element ''.gsc_a_c'') (querySelector element ''.gsc_a_c a'');
          title =
            (case titleElement of
               Some t \<Rightarrow> trim (node_textContent t)
             | None \<Rightarrow>
                 (case split_nl (textContent element) of
                    [] \<Rightarrow> ''Unknown Title''
                  | first # _ \<Rightarrow> if trim first \<noteq> [] then trim first else ''Unknown Title''));
          authors =
            (case authorsElement of Some a \<Rightarrow> trim (node_textContent a)
                                   | None \<Rightarrow> ''Unknown Authors'');
          venue =
            (case venueElement of Some v \<Rightarrow> trim (node_textContent v)
                                 | None \<Rightarrow> ''Unknown Venue'');
          year =
            (case yearElement of Some y \<Rightarrow> trim (node_textContent y)
                                | None \<Rightarrow> ''Unknown Year'');
          citations =
            (case citationsElement of Some c \<Rightarrow> trim (node_textContent c) | None \<Rightarrow> ''0'')
      in \<lparr>pub_id = index + 1,
          pub_title = (if length title > 150 then substring0 title 150 @ ''...'' else title),
          pub_authors = authors,
          pub_venue = venue,
          pub_year = year,
          pub_citations = citations,
          pub_link = (case titleElement of Some t \<Rightarrow> node_href t | None \<Rightarrow> Some ''#'')\<rparr>)\<close>

definition parsePublications ::
  "dom_parser \<Rightarrow> string \<Rightarrow> ScholarPublications \<Rightarrow> error + ScholarPublications" where
  "parsePublications parseFromString html w =
     (case parseFromString html of
        Inl e \<Rightarrow> Inl e
      | Inr doc \<Rightarrow>
          (let publicationElements = firstMatching doc selectors;
               w1 = w\<lparr>publications :=
                        map (\<lambda>(index, element). toPublication element index)
                          (enumerate 0 publicationElements)\<rparr>
           in Inr (if length (publications w1) = 0 \<or> length (publications w1) < 5
                   then loadFallbackPublications w1 else w1)))"

definition fetchPublications ::
  "dom_parser \<Rightarrow> response option \<Rightarrow> ScholarPublications \<Rightarrow> ScholarPublications" where
  "fetchPublications parseFromString fetched w =
     (let w1 = w\<lparr>pubs_isLoading := True\<rparr>;
          tried =
            (case fetched of
               None \<Rightarrow> Inl NetworkError
             | Some resp \<Rightarrow>
                 if \<not> resp_ok resp then Inl (HttpError (resp_status resp))
                 else (case resp_text resp of
                         None \<Rightarrow> Inl BodyError
                       | Some html \<Rightarrow> parsePublications parseFromString html w1));
          w2 = (case tried of Inl e \<Rightarrow> loadFallbackPublications w1 | Inr w' \<Rightarrow> w')
      in w2\<lparr>pubs_isLoading := False\<rparr>)"

section \<open>Named parts of the two extractions\<close>

text \<open>The candidates of an element set: the trimmed text of each element, in document
  order.\<close>

definition candidates :: "element list \<Rightarrow> string list" where
  "candidates elements = map (\<lambda>element. trim (textContent element)) elements"

text \<open>The record that \<open>parseResearchGrants\<close> pushes for a text, with a given id.\<close>

definition grantOf :: "nat \<Rightarrow> string \<Rightarrow> grant" where
  "grantOf n text =
     \<lparr>grant_id = n, grant_title = extractTitle text, grant_details = text,
      grant_type = extractType text, grant_status = extractStatus text\<rparr>"

text \<open>The records built from the matched elements of a document, before the fallback
  is considered.\<close>

definition liveGrants :: "document \<Rightarrow> grant list" where
  "liveGrants doc = forSelectors doc possibleSelectors []"

definition livePublications :: "document \<Rightarrow> publication list" where
  "livePublications doc =
     map (\<lambda>(index, element). toPublication element index)
       (enumerate 0 (firstMatching doc selectors))"

text \<open>The constant \<open>title\<close> of the callback in \<open>parsePublications\<close>, before it is
  cut: the trimmed text of the title element, else the trimmed first line of the
  element's text, else "Unknown Title".\<close>

definition publicationTitle :: "element \<Rightarrow> string" where
  \<open>publicationTitle element =
     (let titleElement =
            orElse (querySelector element ''.gsc_a_at'')
              (orElse (querySelector element ''a[href*="scholar"]'')
                 (querySelector element ''.gsc_a_t a''))
      in case titleElement of
           Some t \<Rightarrow> trim (node_textContent t)
         | None \<Rightarrow>
             (case split_nl (textContent element) of
                [] \<Rightarrow> ''Unknown Title''
              | first # _ \<Rightarrow> if trim first \<noteq> [] then trim first else ''Unknown Title''))\<close>

section \<open>Notions of the specification\<close>

text \<open>A keyword occurs in a text as a case-insensitive substring: some run of the
  text lower-cases to the (lower-case) keyword.\<close>

definition occurs_ignoring_case :: "string \<Rightarrow> string \<Rightarrow> bool" where
  "occurs_ignoring_case k text = (\<exists>p k' r. text = p @ k' @ r \<and> toLowerCase k' = k)"

text \<open>A candidate survives the grants filter when it is longer than 10 code units and
  some configured keyword occurs in it, case ignored.\<close>

definition survives :: "string \<Rightarrow> bool" where
  "survives text =
     (length text > 10 \<and>
      (\<exists>k \<in> set researchKeywords. occurs_ignoring_case (toLowerCase k) text))"

text \<open>The visible text of an element is what the rendered page shows of it: it leaves
  out the text of descendants that are not shown, which \<open>textContent\<close> includes. No
  code of the widgets reads it.\<close>

record rendered_element = element +
  visibleText :: string

section \<open>Sample documents\<close>

text \<open>An element with the given text and no descendant that any query finds; a
  document given by a table from selectors to the elements they match.\<close>

definition textElement :: "string \<Rightarrow> element" where
  "textElement t = \<lparr>textContent = t, querySelector = (\<lambda>s. None), querySelectorAll = (\<lambda>s. [])\<rparr>"

definition docOf :: "(string \<times> element list) list \<Rightarrow> document" where
  "docOf table s = (case map_of table s of None \<Rightarrow> [] | Some es \<Rightarrow> es)"

definition doc_two_selectors :: document where
  "doc_two_selectors =
     docOf [(''.grant-item'', [textElement ''  UiTM Research Grant 2021  '']),
            (''table tr'', [textElement ''KPM research gamma''])]"

definition doc_winner_discarded :: document where
  "doc_winner_discarded =
     docOf [(''.grant-item'', [textElement '' short'']),
            (''table tr'', [textElement ''  UiTM Research Grant 2021  ''])]"

definition doc_pubs_two_selectors :: document where
  "doc_pubs_two_selectors =
     docOf [(''.gsc_a_t'', [textElement ''t1'']),
            (''.gsc_a_tc'', [textElement ''c1'', textElement ''c2''])]"

definition doc_pubs_five :: document where
  "doc_pubs_five =
     docOf [(''.gsc_a_tr'', [textElement ''p1'', textElement ''p2'', textElement ''p3'',
                             textElement ''p4'', textElement ''p5''])]"

definition emptyGrantsWidget :: ExpertResearchGrants where
  "emptyGrantsWidget = \<lparr>researchGrants = [], isLoading = False\<rparr>"

definition emptyPublicationsWidget :: ScholarPublications where
  "emptyPublicationsWidget = \<lparr>publications = [], pubs_isLoading = False\<rparr>"

definition okResponse :: "string \<Rightarrow> response" where
  "okResponse html = \<lparr>resp_ok = True, resp_status = 200, resp_text = Some html\<rparr>"

definition doc_three_rows :: document where
  "doc_three_rows =
     docOf [(''table tr'', [textElement ''  UiTM Research Grant 2021  '', textElement '' short'',
                            textElement ''FRGS project beta''])]"

text \<open>A table row whose second cell is not shown: its \<open>textContent\<close> includes the
  hidden cell, its visible text does not.\<close>

definition hidden_cell :: rendered_element where
  "hidden_cell =
     \<lparr>textContent = ''Room 12 research grant 2021'', querySelector = (\<lambda>s. None),
      querySelectorAll = (\<lambda>s. []), visibleText = ''Room 12''\<rparr>"

section \<open>Facts about the string operations\<close>

lemma startsWith_iff: "startsWith s k \<longleftrightarrow> (\<exists>r. s = k @ r)"
  by (induction s k rule: startsWith.induct) auto

lemma includes_iff: "includes_str s k \<longleftrightarrow> (\<exists>p r. s = p @ k @ r)"
proof (induction s)
  case Nil
  show ?case by auto
next
  case (Cons c cs)
  show ?case
  proof
    assume "includes_str (c # cs) k"
    then consider "startsWith (c # cs) k" | "includes_str cs k" by auto
    then show "\<exists>p r. c # cs = p @ k @ r"
    proof cases
      case 1
      then obtain r where "c # cs = k @ r" by (auto simp: startsWith_iff)
      then have "c # cs = [] @ k @ r" by simp
      then show ?thesis by blast
    next
      case 2
      then obtain p r where "cs = p @ k @ r" using Cons.IH by blast
      then have "c # cs = (c # p) @ k @ r" by simp
      then show ?thesis by blast
    qed
  next
    assume "\<exists>p r. c # cs = p @ k @ r"
    then obtain p r where e: "c # cs = p @ k @ r" by blast
    show "includes_str (c # cs) k"
    proof (cases p)
      case Nil
      with e have "startsWith (c # cs) k" by (auto simp: startsWith_iff)
      then show ?thesis by simp
    next
      case (Cons a p')
      with e have "cs = p' @ k @ r" by simp
      then have "includes_str cs k" using Cons.IH by blast
      then show ?thesis by simp
    qed
  qed
qed

lemma map_eq_append_split:
  "map f xs = ys @ zs \<Longrightarrow> \<exists>us vs. xs = us @ vs \<and> map f us = ys \<and> map f vs = zs"
  by (auto simp: map_eq_append_conv)

lemma includes_lower_iff: "includes_str (toLowerCase text) k \<longleftrightarrow> occurs_ignoring_case k text"
proof
  assume "includes_str (toLowerCase text) k"
  then obtain p r where "map lowerChar text = p @ k @ r"
    by (auto simp: includes_iff toLowerCase_def)
  from map_eq_append_split [OF this]
  obtain p' m where t: "text = p' @ m" and m: "map lowerChar m = k @ r" by blast
  from map_eq_append_split [OF m]
  obtain k' r' where "m = k' @ r'" and "map lowerChar k' = k" by blast
  with t have "text = p' @ k' @ r' \<and> toLowerCase k' = k" by (simp add: toLowerCase_def)
  then show "occurs_ignoring_case k text" unfolding occurs_ignoring_case_def by blast
next
  assume "occurs_ignoring_case k text"
  then obtain p k' r where "text = p @ k' @ r" and "toLowerCase k' = k"
    unfolding occurs_ignoring_case_def by blast
  then have "toLowerCase text = toLowerCase p @ k @ toLowerCase r"
    by (auto simp: toLowerCase_def)
  then show "includes_str (toLowerCase text) k" unfolding includes_iff by blast
qed

section \<open>Facts about the extraction loops\<close>

lemma isResearchGrantText_iff:
  "isResearchGrantText text \<longleftrightarrow> (\<exists>k \<in> set researchKeywords. occurs_ignoring_case (toLowerCase k) text)"
  by (simp add: isResearchGrantText_def list_ex_iff includes_lower_iff)

lemma push_condition_iff:
  "(text \<noteq> [] \<and> length text > 10 \<and> isResearchGrantText text) \<longleftrightarrow> survives text"
  by (auto simp: survives_def isResearchGrantText_iff)

lemma forEachElement_eq:
  "forEachElement elements gs =
     gs @ map (\<lambda>(n, text). grantOf n text)
            (enumerate (length gs + 1) (filter survives (candidates elements)))"
proof (induction elements arbitrary: gs)
  case Nil
  show ?case by (simp add: candidates_def)
next
  case (Cons element rest)
  show ?case
  proof (cases "survives (trim (textContent element))")
    case True
    then have "trim (textContent element) \<noteq> [] \<and> length (trim (textContent element)) > 10
        \<and> isResearchGrantText (trim (textContent element))"
      using push_condition_iff by blast
    then have "forEachElement (element # rest) gs =
        forEachElement rest (gs @ [grantOf (length gs + 1) (trim (textContent element))])"
      by (simp add: grantOf_def Let_def)
    also have "\<dots> = (gs @ [grantOf (length gs + 1) (trim (textContent element))]) @
        map (\<lambda>(n, text). grantOf n text)
          (enumerate (length gs + 2) (filter survives (candidates rest)))"
      by (simp add: Cons.IH)
    finally show ?thesis using True by (simp add: candidates_def)
  next
    case False
    then have "\<not> (trim (textContent element) \<noteq> [] \<and> length (trim (textContent element)) > 10
        \<and> isResearchGrantText (trim (textContent element)))"
      using push_condition_iff by blast
    then have "forEachElement (element # rest) gs = forEachElement rest gs"
      by (auto simp: Let_def)
    then show ?thesis using False by (simp add: Cons.IH candidates_def)
  qed
qed

lemma forEachElement_ids:
  "map grant_id (forEachElement elements []) = [1..<Suc (length (forEachElement elements []))]"
proof -
  have "map grant_id (forEachElement elements []) =
      map fst (enumerate 1 (filter survives (candidates elements)))"
    by (simp add: forEachElement_eq grantOf_def case_prod_unfold comp_def)
  then show ?thesis by (simp add: forEachElement_eq)
qed

lemma forEachElement_details:
  "map grant_details (forEachElement elements []) = filter survives (candidates elements)"
proof -
  have "map grant_details (forEachElement elements []) =
      map snd (enumerate 1 (filter survives (candidates elements)))"
    by (simp add: forEachElement_eq grantOf_def case_prod_unfold comp_def)
  then show ?thesis by simp
qed

lemma forSelectors_find:
  "forSelectors doc sels gs =
     (case List.find (\<lambda>s. doc s \<noteq> []) sels of None \<Rightarrow> gs | Some s \<Rightarrow> forEachElement (doc s) gs)"
  by (induction sels) (auto simp: Let_def)

lemma firstMatching_find:
  "firstMatching doc sels =
     (case List.find (\<lambda>s. doc s \<noteq> []) sels of None \<Rightarrow> [] | Some s \<Rightarrow> doc s)"
  by (induction sels) (auto simp: Let_def)

lemma find_first:
  "sels = pre @ s # post \<Longrightarrow> \<forall>p \<in> set pre. \<not> P p \<Longrightarrow> P s \<Longrightarrow> List.find P sels = Some s"
  by (induction pre arbitrary: sels) auto


lemma parseResearchGrants_Inl:
  "parser html = Inl e \<Longrightarrow> parseResearchGrants parser html w = Inl e"
  by (simp add: parseResearchGrants_def)

lemma parseResearchGrants_Inr:
  "parser html = Inr doc \<Longrightarrow>
   parseResearchGrants parser html w =
     Inr (w\<lparr>researchGrants := (if liveGrants doc = [] then fallbackResearchGrants else liveGrants doc)\<rparr>)"
  by (simp add: parseResearchGrants_def liveGrants_def loadFallbackResearchGrants_def Let_def)

lemma enumerate_Nil_iff: "enumerate n xs = [] \<longleftrightarrow> xs = []"
  by (cases xs) simp_all

lemma parsePublications_Inl:
  "parser html = Inl e \<Longrightarrow> parsePublications parser html v = Inl e"
  by (simp add: parsePublications_def)

lemma parsePublications_Inr:
  "parser html = Inr doc \<Longrightarrow>
   parsePublications parser html v =
     Inr (v\<lparr>publications := (if length (livePublications doc) < 5 then fallbackPublications
                               else livePublications doc)\<rparr>)"
proof -
  have c: "(n = 0 \<or> n < 5) = (n < 5)" for n :: nat by auto
  assume "parser html = Inr doc"
  then show ?thesis
    by (auto simp: parsePublications_def livePublications_def loadFallbackPublications_def
        Let_def enumerate_Nil_iff)
qed

lemma fetchResearchGrants_result:
  "researchGrants (fetchResearchGrants parser fetched w) =
     (case fetched of
        None \<Rightarrow> fallbackResearchGrants
      | Some resp \<Rightarrow>
          if \<not> resp_ok resp then fallbackResearchGrants
          else (case resp_text resp of
                  None \<Rightarrow> fallbackResearchGrants
                | Some html \<Rightarrow>
                    (case parser html of
                       Inl e \<Rightarrow> fallbackResearchGrants
                     | Inr doc \<Rightarrow> if liveGrants doc = [] then fallbackResearchGrants
                                 else liveGrants doc)))"
  by (auto simp: fetchResearchGrants_def loadFallbackResearchGrants_def Let_def
      parseResearchGrants_Inl parseResearchGrants_Inr split: option.splits sum.splits)

lemma fetchPublications_result:
  "publications (fetchPublications parser fetched v) =
     (case fetched of
        None \<Rightarrow> fallbackPublications
      | Some resp \<Rightarrow>
          if \<not> resp_ok resp then fallbackPublications
          else (case resp_text resp of
                  None \<Rightarrow> fallbackPublications
                | Some html \<Rightarrow>
                    (case parser html of
                       Inl e \<Rightarrow> fallbackPublications
                     | Inr doc \<Rightarrow> if length (livePublications doc) < 5 then fallbackPublications
                                 else livePublications doc)))"
  by (auto simp: fetchPublications_def loadFallbackPublications_def Let_def
      parsePublications_Inl parsePublications_Inr split: option.splits sum.splits)

lemma fallbackResearchGrants_ids: "map grant_id fallbackResearchGrants = [1..<Suc (length fallbackResearchGrants)]"
  by (simp add: fallbackResearchGrants_def upt_rec)

lemma fallbackPublications_ids: "map pub_id fallbackPublications = [1..<Suc (length fallbackPublications)]"
  by (simp add: fallbackPublications_def upt_rec)

lemma liveGrants_ids: "map grant_id (liveGrants doc) = [1..<Suc (length (liveGrants doc))]"
proof (cases "List.find (\<lambda>s. doc s \<noteq> []) possibleSelectors")
  case None
  then have "liveGrants doc = []" by (simp add: liveGrants_def forSelectors_find)
  then show ?thesis by simp
next
  case (Some s)
  then have "liveGrants doc = forEachElement (doc s) []"
    by (simp add: liveGrants_def forSelectors_find)
  then show ?thesis by (simp only: forEachElement_ids)
qed

lemma livePublications_ids:
  "map pub_id (livePublications doc) = [1..<Suc (length (livePublications doc))]"
proof -
  define es where "es = firstMatching doc selectors"
  have "map pub_id (livePublications doc) = map (\<lambda>p. Suc (fst p)) (enumerate 0 es)"
    by (simp add: livePublications_def toPublication_def Let_def case_prod_unfold comp_def es_def)
  also have "\<dots> = map Suc (map fst (enumerate 0 es))"
    by (simp only: map_map comp_def)
  also have "\<dots> = map Suc [0..<length es]"
    by (simp only: map_fst_enumerate add_0)
  also have "\<dots> = [1..<Suc (length es)]"
    by (simp add: map_Suc_upt)
  finally show ?thesis by (simp add: livePublications_def es_def)
qed

section \<open>Grants: status and type classification\<close>

text \<open>
  C4. Grants status classification is a function of the text alone, insensitive to
  case, with a fixed precedence: a text in which "completed" occurs in any case is
  "Completed", whatever else it contains (a year such as "2024" or an activity keyword
  included); failing that, a text in which "active", "ongoing" or one of the years 2020
  to 2025 occurs is "Active"; every other text is "Unknown". Two texts that differ only
  in case are classified alike.
\<close>

theorem extractStatus_precedence:
  "extractStatus text =
     (if occurs_ignoring_case ''completed'' text then ''Completed''
      else if occurs_ignoring_case ''active'' text \<or> occurs_ignoring_case ''ongoing'' text
            \<or> occurs_ignoring_case ''2020'' text \<or> occurs_ignoring_case ''2021'' text
            \<or> occurs_ignoring_case ''2022'' text \<or> occurs_ignoring_case ''2023'' text
            \<or> occurs_ignoring_case ''2024'' text \<or> occurs_ignoring_case ''2025'' text
        then ''Active''
      else ''Unknown'')
   \<and> (toLowerCase text = toLowerCase text' \<longrightarrow> extractStatus text = extractStatus text')"
proof
  show "extractStatus text =
     (if occurs_ignoring_case ''completed'' text then ''Completed''
      else if occurs_ignoring_case ''active'' text \<or> occurs_ignoring_case ''ongoing'' text
            \<or> occurs_ignoring_case ''2020'' text \<or> occurs_ignoring_case ''2021'' text
            \<or> occurs_ignoring_case ''2022'' text \<or> occurs_ignoring_case ''2023'' text
            \<or> occurs_ignoring_case ''2024'' text \<or> occurs_ignoring_case ''2025'' text
        then ''Active''
      else ''Unknown'')"
    unfolding extractStatus_def includes_lower_iff by simp
  show "toLowerCase text = toLowerCase text' \<longrightarrow> extractStatus text = extractStatus text'"
    by (simp add: extractStatus_def)
qed

theorem extractStatus_precedence_witness:
  "toLowerCase ''Grant COMPLETED, active in 2024'' = toLowerCase ''grant Completed, Active in 2024''
   \<and> occurs_ignoring_case ''completed'' ''Grant COMPLETED, active in 2024''
   \<and> occurs_ignoring_case ''2024'' ''Grant COMPLETED, active in 2024''
   \<and> extractStatus ''Grant COMPLETED, active in 2024'' = ''Completed''
   \<and> extractStatus ''grant Completed, Active in 2024'' = ''Completed''"
proof -
  have low: "toLowerCase ''Grant COMPLETED, active in 2024'' = toLowerCase ''grant Completed, Active in 2024''"
    by code_simp
  have c: "includes_str (toLowerCase ''Grant COMPLETED, active in 2024'') ''completed''"
    by code_simp
  have y: "includes_str (toLowerCase ''Grant COMPLETED, active in 2024'') ''2024''"
    by code_simp
  have c': "occurs_ignoring_case ''completed'' ''Grant COMPLETED, active in 2024''"
    using c by (simp only: includes_lower_iff)
  have y': "occurs_ignoring_case ''2024'' ''Grant COMPLETED, active in 2024''"
    using y by (simp only: includes_lower_iff)
  note th = extractStatus_precedence [of "''Grant COMPLETED, active in 2024''"
      "''grant Completed, Active in 2024''"]
  from th c' have s: "extractStatus ''Grant COMPLETED, active in 2024'' = ''Completed''"
    by simp
  from th low s have s': "extractStatus ''grant Completed, Active in 2024'' = ''Completed''"
    by simp
  from low c' y' s s' show ?thesis by blast
qed

lemma toLowerCase_racer_text:
  "toLowerCase ''KPM, Autonomous Anomaly Detection in Streaming Data, (Ref: RACER/1/2019/ICT02/UITM//4), Role: Team Member.''
   = ''kpm, autonomous anomaly detection in streaming data, (ref: racer/1/2019/ict02/uitm//4), role: team member.''"
  by code_simp

text \<open>
  C5. On the text of the first fallback grant the classifiers give type "RACER" and
  status "Unknown": "kpm" occurs in the text, and earlier than "racer", but the RACER
  test comes first; "2019" occurs, which is none of the recent years, and no completion
  or activity keyword does.
\<close>

theorem racer_example:
  "extractType ''KPM, Autonomous Anomaly Detection in Streaming Data, (Ref: RACER/1/2019/ICT02/UITM//4), Role: Team Member.'' = ''RACER''
   \<and> extractStatus ''KPM, Autonomous Anomaly Detection in Streaming Data, (Ref: RACER/1/2019/ICT02/UITM//4), Role: Team Member.'' = ''Unknown''
   \<and> startsWith (toLowerCase ''KPM, Autonomous Anomaly Detection in Streaming Data, (Ref: RACER/1/2019/ICT02/UITM//4), Role: Team Member.'') ''kpm''
   \<and> includes_str ''KPM, Autonomous Anomaly Detection in Streaming Data, (Ref: RACER/1/2019/ICT02/UITM//4), Role: Team Member.'' ''2019''"
  unfolding extractType_def extractStatus_def toLowerCase_racer_text by code_simp

section \<open>Grants: the candidate filter\<close>

lemma survives_sample_1: "survives ''UiTM Research Grant 2021''"
  unfolding push_condition_iff [symmetric] by code_simp

lemma survives_sample_2: "\<not> survives ''short''"
  unfolding push_condition_iff [symmetric] by code_simp

lemma survives_sample_3: "\<not> survives ''hello world, hello''"
  unfolding push_condition_iff [symmetric] by code_simp

lemma toLowerCase_keyword_samples:
  "toLowerCase ''grant'' = ''grant'' \<and> toLowerCase ''GRANT'' = ''grant''
   \<and> toLowerCase ''FRGS'' = ''frgs'' \<and> toLowerCase ''frgs'' = ''frgs''"
  by code_simp

lemma survives_upper_case_text:
  assumes "length (p @ ''GRANT'' @ r) > 10"
  shows "survives (p @ ''GRANT'' @ r)"
proof -
  have k: "''grant'' \<in> set researchKeywords" by (simp add: researchKeywords_def)
  have "p @ ''GRANT'' @ r = p @ ''GRANT'' @ r \<and> toLowerCase ''GRANT'' = toLowerCase ''grant''"
    by (simp only: toLowerCase_keyword_samples)
  then have occ: "occurs_ignoring_case (toLowerCase ''grant'') (p @ ''GRANT'' @ r)"
    unfolding occurs_ignoring_case_def by (intro exI)
  have "\<exists>k \<in> set researchKeywords.
      occurs_ignoring_case (toLowerCase k) (p @ ''GRANT'' @ r)"
    using bexI [of "\<lambda>k. occurs_ignoring_case (toLowerCase k) (p @ ''GRANT'' @ r)"
        "''grant''" "set researchKeywords", OF occ k] .
  with assms show ?thesis unfolding survives_def by (rule conjI)
qed

lemma survives_upper_case_keyword:
  assumes "length (p @ ''frgs'' @ r) > 10"
  shows "survives (p @ ''frgs'' @ r)"
proof -
  have k: "''FRGS'' \<in> set researchKeywords" by (simp add: researchKeywords_def)
  have "p @ ''frgs'' @ r = p @ ''frgs'' @ r \<and> toLowerCase ''frgs'' = toLowerCase ''FRGS''"
    by (simp only: toLowerCase_keyword_samples)
  then have occ: "occurs_ignoring_case (toLowerCase ''FRGS'') (p @ ''frgs'' @ r)"
    unfolding occurs_ignoring_case_def by (intro exI)
  have "\<exists>k \<in> set researchKeywords.
      occurs_ignoring_case (toLowerCase k) (p @ ''frgs'' @ r)"
    using bexI [of "\<lambda>k. occurs_ignoring_case (toLowerCase k) (p @ ''frgs'' @ r)"
        "''FRGS''" "set researchKeywords", OF occ k] .
  with assms show ?thesis unfolding survives_def by (rule conjI)
qed

lemma survives_sample_5: "survives ''Room 12 research grant 2021''"
  unfolding push_condition_iff [symmetric] by code_simp

lemma trim_hidden_cell:
  "trim ''Room 12 research grant 2021'' = ''Room 12 research grant 2021''
   \<and> trim ''Room 12'' = ''Room 12''"
  by code_simp

text \<open>
  C8 as stated does not hold. The candidate is not the visible text of the element: for
  a row whose second cell is hidden, the trimmed visible text is "Room 12", which has 7
  code units and would be discarded, but the code reads \<open>textContent\<close>, which
  includes the hidden cell, and produces a record from it. (\<open>element.truncate\<close> is
  the row as the code sees it, without the field for the visible text.)
\<close>

theorem visible_text_counterexample:
  "trim (visibleText hidden_cell) = ''Room 12''
   \<and> length ''Room 12'' \<le> 10
   \<and> trim (textContent hidden_cell) = ''Room 12 research grant 2021''
   \<and> forEachElement [element.truncate hidden_cell] []
       = [grantOf 1 ''Room 12 research grant 2021'']"
proof -
  have v: "visibleText hidden_cell = ''Room 12''" by (simp add: hidden_cell_def)
  have t: "textContent hidden_cell = ''Room 12 research grant 2021''"
    by (simp add: hidden_cell_def)
  have tt: "textContent (element.truncate hidden_cell) = ''Room 12 research grant 2021''"
    by (simp add: hidden_cell_def element.truncate_def)
  have c: "candidates [element.truncate hidden_cell] = [''Room 12 research grant 2021'']"
    by (simp only: candidates_def list.map tt trim_hidden_cell)
  have fe: "forEachElement [element.truncate hidden_cell] []
       = [grantOf 1 ''Room 12 research grant 2021'']"
    by (simp only: forEachElement_eq c) (simp add: survives_sample_5)
  have tv: "trim (visibleText hidden_cell) = ''Room 12''"
    by (simp only: v trim_hidden_cell)
  have tc: "trim (textContent hidden_cell) = ''Room 12 research grant 2021''"
    by (simp only: t trim_hidden_cell)
  have l: "length ''Room 12'' \<le> 10" by simp
  from tv l tc fe show ?thesis by (intro conjI)
qed

text \<open>
  C8, as the code has it. In the grants variant each matched element contributes its
  trimmed \<open>textContent\<close>, the text of the element and of all its descendants, shown
  or not, as the candidate; a candidate is discarded exactly when it has 10 code units
  or fewer or no configured keyword occurs in it, case ignored, so that a text longer
  than 10 in which "GRANT" occurs survives by the keyword "grant" and one in which
  "frgs" occurs survives by the keyword "FRGS"; and the surviving candidates, in order,
  produce exactly one record each.
\<close>

theorem grants_filter:
  "forEachElement elements [] =
     map (\<lambda>(n, text). grantOf n text) (enumerate 1 (filter survives (candidates elements)))
   \<and> candidates elements = map (\<lambda>element. trim (textContent element)) elements
   \<and> length (forEachElement elements []) = length (filter survives (candidates elements))
   \<and> (survives text \<longleftrightarrow>
        \<not> (length text \<le> 10 \<or>
           (\<forall>k \<in> set researchKeywords. \<not> occurs_ignoring_case (toLowerCase k) text)))
   \<and> (length (p @ ''GRANT'' @ r) > 10 \<longrightarrow> survives (p @ ''GRANT'' @ r))
   \<and> (length (p @ ''frgs'' @ r) > 10 \<longrightarrow> survives (p @ ''frgs'' @ r))"
proof (intro conjI impI)
  show "forEachElement elements [] =
     map (\<lambda>(n, text). grantOf n text) (enumerate 1 (filter survives (candidates elements)))"
    by (simp add: forEachElement_eq)
  show "candidates elements = map (\<lambda>element. trim (textContent element)) elements"
    by (simp add: candidates_def)
  show "length (forEachElement elements []) = length (filter survives (candidates elements))"
    by (simp add: forEachElement_eq)
  show "survives text \<longleftrightarrow>
        \<not> (length text \<le> 10 \<or>
           (\<forall>k \<in> set researchKeywords. \<not> occurs_ignoring_case (toLowerCase k) text))"
    by (auto simp: survives_def)
next
  assume "length (p @ ''GRANT'' @ r) > 10"
  then show "survives (p @ ''GRANT'' @ r)" by (rule survives_upper_case_text)
next
  assume "length (p @ ''frgs'' @ r) > 10"
  then show "survives (p @ ''frgs'' @ r)" by (rule survives_upper_case_keyword)
qed

lemma candidates_sample_folding:
  "candidates [textElement ''  GRANT NO. 12345  '', textElement '' short'',
               textElement ''hello world, hello'', textElement ''frgs scheme, phase 2'']
   = [''GRANT NO. 12345'', ''short'', ''hello world, hello'', ''frgs scheme, phase 2'']"
  by code_simp

theorem grants_filter_witness:
  "forEachElement [textElement ''  GRANT NO. 12345  '', textElement '' short'',
                   textElement ''hello world, hello'', textElement ''frgs scheme, phase 2''] []
     = [grantOf 1 ''GRANT NO. 12345'', grantOf 2 ''frgs scheme, phase 2'']
   \<and> survives ''GRANT NO. 12345''
   \<and> survives ''frgs scheme, phase 2''
   \<and> length ''short'' \<le> 10 \<and> \<not> survives ''short''
   \<and> \<not> survives ''hello world, hello''"
proof -
  note th = grants_filter [of "[textElement ''  GRANT NO. 12345  '', textElement '' short'',
                   textElement ''hello world, hello'', textElement ''frgs scheme, phase 2'']"
      "''short''" "[]" "'' NO. 12345''"]
  note th2 = grants_filter [of "[]" "''short''" "[]" "'' scheme, phase 2''"]
  have l1: "length ([] @ ''GRANT'' @ '' NO. 12345'') > 10" by simp
  have l2: "length ([] @ ''frgs'' @ '' scheme, phase 2'') > 10" by simp
  from th [THEN conjunct2, THEN conjunct2, THEN conjunct2, THEN conjunct2, THEN conjunct1,
      THEN mp, OF l1]
  have s1: "survives ''GRANT NO. 12345''" by simp
  from th2 [THEN conjunct2, THEN conjunct2, THEN conjunct2, THEN conjunct2, THEN conjunct2,
      THEN mp, OF l2]
  have s2: "survives ''frgs scheme, phase 2''" by simp
  from th [THEN conjunct2, THEN conjunct2, THEN conjunct2, THEN conjunct1]
  have s3: "\<not> survives ''short''" by simp
  have f: "filter survives [''GRANT NO. 12345'', ''short'', ''hello world, hello'',
      ''frgs scheme, phase 2''] = [''GRANT NO. 12345'', ''frgs scheme, phase 2'']"
    using s1 s2 s3 survives_sample_3 by simp
  have m: "map (\<lambda>(n, text). grantOf n text)
        (enumerate 1 [''GRANT NO. 12345'', ''frgs scheme, phase 2''])
      = [grantOf 1 ''GRANT NO. 12345'', grantOf 2 ''frgs scheme, phase 2'']"
    by (simp add: numeral_2_eq_2)
  from th [THEN conjunct1]
  have fe: "forEachElement [textElement ''  GRANT NO. 12345  '', textElement '' short'',
                   textElement ''hello world, hello'', textElement ''frgs scheme, phase 2''] []
     = [grantOf 1 ''GRANT NO. 12345'', grantOf 2 ''frgs scheme, phase 2'']"
    by (simp only: candidates_sample_folding f m)
  have l: "length ''short'' \<le> 10" by simp
  from fe s1 s2 l s3 survives_sample_3 show ?thesis by (intro conjI)
qed


section \<open>Sample evaluations\<close>

lemma forEachElement_sample_kept:
  "forEachElement [textElement ''  UiTM Research Grant 2021  ''] []
     = [grantOf 1 ''UiTM Research Grant 2021'']"
proof -
  have "candidates [textElement ''  UiTM Research Grant 2021  ''] = [''UiTM Research Grant 2021'']"
    by code_simp
  then show ?thesis by (simp add: forEachElement_eq survives_sample_1)
qed

lemma forEachElement_sample_dropped: "forEachElement [textElement '' short''] [] = []"
proof -
  have "candidates [textElement '' short''] = [''short'']" by code_simp
  then show ?thesis by (simp add: forEachElement_eq survives_sample_2)
qed

lemma liveGrants_empty_doc: "liveGrants (docOf []) = []"
  by (simp add: liveGrants_def possibleSelectors_def docOf_def)

section \<open>Selector priority\<close>

text \<open>
  C7. The selectors are tried in their configured order and the first one that matches
  some element is used alone: the records are built from that selector's elements and
  from no later selector's, also when the filter discards every element of the winning
  selector (the fallback is loaded then). The publications variant picks its element
  set the same way.
\<close>

theorem first_selector_exclusive:
  "(possibleSelectors = pre @ s # post \<and> (\<forall>p \<in> set pre. doc p = []) \<and> doc s \<noteq> [] \<longrightarrow>
      liveGrants doc = forEachElement (doc s) [] \<and>
      (parser html = Inr doc \<longrightarrow>
         parseResearchGrants parser html w =
           Inr (w\<lparr>researchGrants :=
                    (if forEachElement (doc s) [] = [] then fallbackResearchGrants
                     else forEachElement (doc s) [])\<rparr>)))
   \<and> (selectors = pre' @ s' # post' \<and> (\<forall>p \<in> set pre'. doc p = []) \<and> doc s' \<noteq> [] \<longrightarrow>
      firstMatching doc selectors = doc s' \<and>
      livePublications doc =
        map (\<lambda>(index, element). toPublication element index) (enumerate 0 (doc s')))"
proof (intro conjI impI)
  assume a: "possibleSelectors = pre @ s # post \<and> (\<forall>p \<in> set pre. doc p = []) \<and> doc s \<noteq> []"
  then have "List.find (\<lambda>s. doc s \<noteq> []) possibleSelectors = Some s"
    by (intro find_first [where pre = pre and post = post]) auto
  then show l: "liveGrants doc = forEachElement (doc s) []"
    by (simp add: liveGrants_def forSelectors_find)
  assume "parser html = Inr doc"
  then show "parseResearchGrants parser html w =
           Inr (w\<lparr>researchGrants :=
                    (if forEachElement (doc s) [] = [] then fallbackResearchGrants
                     else forEachElement (doc s) [])\<rparr>)"
    by (simp add: parseResearchGrants_Inr l)
next
  assume a: "selectors = pre' @ s' # post' \<and> (\<forall>p \<in> set pre'. doc p = []) \<and> doc s' \<noteq> []"
  then have "List.find (\<lambda>s. doc s \<noteq> []) selectors = Some s'"
    by (intro find_first [where pre = pre' and post = post']) auto
  then show f: "firstMatching doc selectors = doc s'"
    by (simp add: firstMatching_find)
  show "livePublications doc =
        map (\<lambda>(index, element). toPublication element index) (enumerate 0 (doc s'))"
    by (simp add: livePublications_def f)
qed

theorem first_selector_exclusive_witness:
  "liveGrants doc_two_selectors = [grantOf 1 ''UiTM Research Grant 2021'']
   \<and> doc_two_selectors ''table tr'' = [textElement ''KPM research gamma'']
   \<and> doc_winner_discarded ''table tr'' = [textElement ''  UiTM Research Grant 2021  '']
   \<and> parseResearchGrants (\<lambda>h. Inr doc_winner_discarded) '''' emptyGrantsWidget
       = Inr (emptyGrantsWidget\<lparr>researchGrants := fallbackResearchGrants\<rparr>)
   \<and> firstMatching doc_pubs_two_selectors selectors = [textElement ''t1'']
   \<and> doc_pubs_two_selectors ''.gsc_a_tc'' = [textElement ''c1'', textElement ''c2'']"
proof -
  have sel: "possibleSelectors = [''.research-item''] @ ''.grant-item'' #
      [''table tr'', ''.list-item'', ''.research-list li'']"
    by (simp add: possibleSelectors_def)
  have psel: "selectors = [''.gsc_a_tr''] @ ''.gsc_a_t'' #
      [''.gsc_a_at'', ''tr[data-rid]'', ''.gsc_a_tc'']"
    by (simp add: selectors_def)
  have a1: "\<forall>p \<in> set [''.research-item'']. doc_two_selectors p = []"
    by (simp add: doc_two_selectors_def docOf_def)
  have a2: "doc_two_selectors ''.grant-item'' = [textElement ''  UiTM Research Grant 2021  '']"
    by (simp add: doc_two_selectors_def docOf_def)
  have b1: "\<forall>p \<in> set [''.research-item'']. doc_winner_discarded p = []"
    by (simp add: doc_winner_discarded_def docOf_def)
  have b2: "doc_winner_discarded ''.grant-item'' = [textElement '' short'']"
    by (simp add: doc_winner_discarded_def docOf_def)
  have c1: "\<forall>p \<in> set [''.gsc_a_tr'']. doc_pubs_two_selectors p = []"
    by (simp add: doc_pubs_two_selectors_def docOf_def)
  have c2: "doc_pubs_two_selectors ''.gsc_a_t'' = [textElement ''t1'']"
    by (simp add: doc_pubs_two_selectors_def docOf_def)
  have a3: "doc_two_selectors ''.grant-item'' \<noteq> []" by (simp add: a2)
  have b3: "doc_winner_discarded ''.grant-item'' \<noteq> []" by (simp add: b2)
  have c3: "doc_pubs_two_selectors ''.gsc_a_t'' \<noteq> []" by (simp add: c2)
  have p: "(\<lambda>h. Inr doc_winner_discarded) '''' = (Inr doc_winner_discarded :: error + document)"
    by simp
  have "liveGrants doc_two_selectors = forEachElement (doc_two_selectors ''.grant-item'') []"
    using first_selector_exclusive [of "[''.research-item'']" "''.grant-item''"
        "[''table tr'', ''.list-item'', ''.research-list li'']" doc_two_selectors]
      sel a1 a3
    by blast
  then have "liveGrants doc_two_selectors = [grantOf 1 ''UiTM Research Grant 2021'']"
    by (simp only: a2 forEachElement_sample_kept)
  moreover have "parseResearchGrants (\<lambda>h. Inr doc_winner_discarded) '''' emptyGrantsWidget
       = Inr (emptyGrantsWidget\<lparr>researchGrants :=
                  (if forEachElement (doc_winner_discarded ''.grant-item'') [] = []
                   then fallbackResearchGrants
                   else forEachElement (doc_winner_discarded ''.grant-item'') [])\<rparr>)"
    using first_selector_exclusive [of "[''.research-item'']" "''.grant-item''"
        "[''table tr'', ''.list-item'', ''.research-list li'']" doc_winner_discarded
        "\<lambda>h. Inr doc_winner_discarded" "''''" emptyGrantsWidget]
      sel b1 b3 p
    by blast
  then have "parseResearchGrants (\<lambda>h. Inr doc_winner_discarded) '''' emptyGrantsWidget
       = Inr (emptyGrantsWidget\<lparr>researchGrants := fallbackResearchGrants\<rparr>)"
    by (simp only: b2 forEachElement_sample_dropped simp_thms if_True)
  moreover have "firstMatching doc_pubs_two_selectors selectors = doc_pubs_two_selectors ''.gsc_a_t''"
    using first_selector_exclusive [of _ _ _ doc_pubs_two_selectors _ _ _ "[''.gsc_a_tr'']"
        "''.gsc_a_t''" "[''.gsc_a_at'', ''tr[data-rid]'', ''.gsc_a_tc'']"]
      psel c1 c3
    by blast
  then have "firstMatching doc_pubs_two_selectors selectors = [textElement ''t1'']"
    by (simp only: c2)
  moreover have "doc_two_selectors ''table tr'' = [textElement ''KPM research gamma'']"
    by (simp add: doc_two_selectors_def docOf_def)
  moreover have "doc_winner_discarded ''table tr'' = [textElement ''  UiTM Research Grant 2021  '']"
    by (simp add: doc_winner_discarded_def docOf_def)
  moreover have "doc_pubs_two_selectors ''.gsc_a_tc'' = [textElement ''c1'', textElement ''c2'']"
    by (simp add: doc_pubs_two_selectors_def docOf_def)
  ultimately show ?thesis by (intro conjI)
qed

section \<open>The fallback dataset\<close>

lemma length_fallbackResearchGrants: "length fallbackResearchGrants = 7"
  by (simp add: fallbackResearchGrants_def)

lemma length_fallbackPublications: "length fallbackPublications = 10"
  by (simp add: fallbackPublications_def)

lemma liveGrants_no_match:
  "\<forall>s \<in> set possibleSelectors. doc s = [] \<Longrightarrow> liveGrants doc = []"
proof -
  assume a: "\<forall>s \<in> set possibleSelectors. doc s = []"
  have "List.find (\<lambda>s. doc s \<noteq> []) possibleSelectors = None"
    using a by (simp add: find_None_iff)
  then show ?thesis by (simp add: liveGrants_def forSelectors_find)
qed

lemma firstMatching_no_match:
  "\<forall>s \<in> set sels. doc s = [] \<Longrightarrow> firstMatching doc sels = []"
  by (induction sels) (simp_all add: Let_def)

lemma forEachElement_all_discarded:
  "\<forall>e \<in> set elements. \<not> survives (trim (textContent e)) \<Longrightarrow> forEachElement elements [] = []"
proof -
  assume "\<forall>e \<in> set elements. \<not> survives (trim (textContent e))"
  then have "filter survives (candidates elements) = []"
    by (simp add: candidates_def filter_empty_conv)
  then show ?thesis by (simp add: forEachElement_eq)
qed

text \<open>
  C1. When no element matches any configured selector, or the filter discards every
  candidate of the selector that matched, the grants extraction returns the fixed
  grants fallback, which has 7 records; when no element matches any configured selector
  the publications extraction returns the fixed publications fallback, which has 10
  records. An unreachable page gives the same two sequences.
\<close>

theorem fallback_when_nothing_survives:
  "(parser html = Inr doc \<and> (\<forall>s \<in> set possibleSelectors. doc s = []) \<longrightarrow>
      parseResearchGrants parser html w = Inr (w\<lparr>researchGrants := fallbackResearchGrants\<rparr>))
   \<and> (parser html = Inr doc \<and> possibleSelectors = pre @ s # post \<and>
       (\<forall>p \<in> set pre. doc p = []) \<and> doc s \<noteq> [] \<and>
       (\<forall>e \<in> set (doc s). \<not> survives (trim (textContent e))) \<longrightarrow>
      parseResearchGrants parser html w = Inr (w\<lparr>researchGrants := fallbackResearchGrants\<rparr>))
   \<and> (parser html = Inr doc \<and> (\<forall>s \<in> set selectors. doc s = []) \<longrightarrow>
      parsePublications parser html v = Inr (v\<lparr>publications := fallbackPublications\<rparr>))
   \<and> researchGrants (fetchResearchGrants parser None w) = fallbackResearchGrants
   \<and> publications (fetchPublications parser None v) = fallbackPublications
   \<and> length fallbackResearchGrants = 7
   \<and> length fallbackPublications = 10"
proof (intro conjI impI)
  assume "parser html = Inr doc \<and> (\<forall>s \<in> set possibleSelectors. doc s = [])"
  then show "parseResearchGrants parser html w = Inr (w\<lparr>researchGrants := fallbackResearchGrants\<rparr>)"
    by (simp add: parseResearchGrants_Inr liveGrants_no_match)
next
  assume a: "parser html = Inr doc \<and> possibleSelectors = pre @ s # post \<and>
       (\<forall>p \<in> set pre. doc p = []) \<and> doc s \<noteq> [] \<and>
       (\<forall>e \<in> set (doc s). \<not> survives (trim (textContent e)))"
  then have "List.find (\<lambda>s. doc s \<noteq> []) possibleSelectors = Some s"
    by (intro find_first [where pre = pre and post = post]) auto
  then have "liveGrants doc = forEachElement (doc s) []"
    by (simp add: liveGrants_def forSelectors_find)
  with a have "liveGrants doc = []"
    by (simp add: forEachElement_all_discarded)
  with a show "parseResearchGrants parser html w = Inr (w\<lparr>researchGrants := fallbackResearchGrants\<rparr>)"
    by (simp add: parseResearchGrants_Inr)
next
  assume a: "parser html = Inr doc \<and> (\<forall>s \<in> set selectors. doc s = [])"
  then have "livePublications doc = []"
    by (simp add: livePublications_def firstMatching_no_match)
  with a show "parsePublications parser html v = Inr (v\<lparr>publications := fallbackPublications\<rparr>)"
    by (simp add: parsePublications_Inr)
next
  show "researchGrants (fetchResearchGrants parser None w) = fallbackResearchGrants"
    by (simp add: fetchResearchGrants_result)
  show "publications (fetchPublications parser None v) = fallbackPublications"
    by (simp add: fetchPublications_result)
  show "length fallbackResearchGrants = 7" by (rule length_fallbackResearchGrants)
  show "length fallbackPublications = 10" by (rule length_fallbackPublications)
qed

theorem fallback_when_nothing_survives_witness:
  "parseResearchGrants (\<lambda>h. Inr (docOf [])) '''' emptyGrantsWidget
     = Inr (emptyGrantsWidget\<lparr>researchGrants := fallbackResearchGrants\<rparr>)
   \<and> parseResearchGrants (\<lambda>h. Inr doc_winner_discarded) '''' emptyGrantsWidget
     = Inr (emptyGrantsWidget\<lparr>researchGrants := fallbackResearchGrants\<rparr>)
   \<and> parsePublications (\<lambda>h. Inr (docOf [])) '''' emptyPublicationsWidget
     = Inr (emptyPublicationsWidget\<lparr>publications := fallbackPublications\<rparr>)
   \<and> map grant_id fallbackResearchGrants = [1, 2, 3, 4, 5, 6, 7]
   \<and> map pub_id fallbackPublications = [1, 2, 3, 4, 5, 6, 7, 8, 9, 10]"
proof -
  have sel: "possibleSelectors = [''.research-item''] @ ''.grant-item'' #
      [''table tr'', ''.list-item'', ''.research-list li'']"
    by (simp add: possibleSelectors_def)
  have e1: "\<forall>s \<in> set possibleSelectors. docOf [] s = []" by (simp add: docOf_def)
  have e2: "\<forall>s \<in> set selectors. docOf [] s = []" by (simp add: docOf_def)
  have p1: "(\<lambda>h. Inr (docOf [])) '''' = (Inr (docOf []) :: error + document)" by simp
  have p2: "(\<lambda>h. Inr doc_winner_discarded) '''' = (Inr doc_winner_discarded :: error + document)"
    by simp
  have b1: "\<forall>p \<in> set [''.research-item'']. doc_winner_discarded p = []"
    by (simp add: doc_winner_discarded_def docOf_def)
  have b2: "doc_winner_discarded ''.grant-item'' = [textElement '' short'']"
    by (simp add: doc_winner_discarded_def docOf_def)
  have b3: "doc_winner_discarded ''.grant-item'' \<noteq> []" by (simp add: b2)
  have "trim (textContent (textElement '' short'')) = ''short''" by code_simp
  then have b4: "\<forall>e \<in> set (doc_winner_discarded ''.grant-item''). \<not> survives (trim (textContent e))"
    by (simp add: b2 survives_sample_2)
  note th = fallback_when_nothing_survives
  have "parseResearchGrants (\<lambda>h. Inr (docOf [])) '''' emptyGrantsWidget
     = Inr (emptyGrantsWidget\<lparr>researchGrants := fallbackResearchGrants\<rparr>)"
    using th [of "\<lambda>h. Inr (docOf [])" "''''" "docOf []" emptyGrantsWidget] p1 e1 by blast
  moreover have "parseResearchGrants (\<lambda>h. Inr doc_winner_discarded) '''' emptyGrantsWidget
     = Inr (emptyGrantsWidget\<lparr>researchGrants := fallbackResearchGrants\<rparr>)"
    using th [of "\<lambda>h. Inr doc_winner_discarded" "''''" doc_winner_discarded emptyGrantsWidget
        "[''.research-item'']" "''.grant-item''"
        "[''table tr'', ''.list-item'', ''.research-list li'']"] p2 sel b1 b3 b4
    by blast
  moreover have "parsePublications (\<lambda>h. Inr (docOf [])) '''' emptyPublicationsWidget
     = Inr (emptyPublicationsWidget\<lparr>publications := fallbackPublications\<rparr>)"
    using th [of "\<lambda>h. Inr (docOf [])" "''''" "docOf []" _ _ _ _ emptyPublicationsWidget] p1 e2
    by blast
  moreover have "map grant_id fallbackResearchGrants = [1, 2, 3, 4, 5, 6, 7]"
    by (simp add: fallbackResearchGrants_def)
  moreover have "map pub_id fallbackPublications = [1, 2, 3, 4, 5, 6, 7, 8, 9, 10]"
    by (simp add: fallbackPublications_def)
  ultimately show ?thesis by (intro conjI)
qed

section \<open>Publications: the fewer-than-five threshold\<close>

lemma length_livePublications:
  "length (livePublications doc) = length (firstMatching doc selectors)"
  by (simp add: livePublications_def)

text \<open>
  C2. In the publications variant an extraction that yields 1 to 4 records returns the
  10-record fallback instead of them, and an extraction that yields 5 or more records
  returns those records. The number of records is the number of matched elements.
\<close>

theorem publications_threshold:
  "(parser html = Inr doc \<and> 1 \<le> length (livePublications doc)
      \<and> length (livePublications doc) \<le> 4 \<longrightarrow>
      parsePublications parser html v = Inr (v\<lparr>publications := fallbackPublications\<rparr>))
   \<and> (parser html = Inr doc \<and> 5 \<le> length (livePublications doc) \<longrightarrow>
      parsePublications parser html v = Inr (v\<lparr>publications := livePublications doc\<rparr>))
   \<and> length (livePublications doc) = length (firstMatching doc selectors)
   \<and> length fallbackPublications = 10"
  by (simp add: parsePublications_Inr length_livePublications length_fallbackPublications)

lemma firstMatching_pubs_two: "firstMatching doc_pubs_two_selectors selectors = [textElement ''t1'']"
  by (simp add: doc_pubs_two_selectors_def docOf_def selectors_def)

lemma firstMatching_pubs_five:
  "firstMatching doc_pubs_five selectors =
     [textElement ''p1'', textElement ''p2'', textElement ''p3'', textElement ''p4'',
      textElement ''p5'']"
  by (simp add: doc_pubs_five_def docOf_def selectors_def)

lemma toPublication_textElement:
  "toPublication (textElement ''p1'') 0 =
     \<lparr>pub_id = 1, pub_title = ''p1'', pub_authors = ''Unknown Authors'',
      pub_venue = ''Unknown Venue'', pub_year = ''Unknown Year'', pub_citations = ''0'',
      pub_link = Some ''#''\<rparr>"
  by code_simp

theorem publications_threshold_witness:
  "length (livePublications doc_pubs_two_selectors) = 1
   \<and> parsePublications (\<lambda>h. Inr doc_pubs_two_selectors) '''' emptyPublicationsWidget
       = Inr (emptyPublicationsWidget\<lparr>publications := fallbackPublications\<rparr>)
   \<and> length (livePublications doc_pubs_five) = 5
   \<and> parsePublications (\<lambda>h. Inr doc_pubs_five) '''' emptyPublicationsWidget
       = Inr (emptyPublicationsWidget\<lparr>publications := livePublications doc_pubs_five\<rparr>)
   \<and> hd (livePublications doc_pubs_five) = toPublication (textElement ''p1'') 0"
proof -
  note th = publications_threshold
  have p2: "(\<lambda>h. Inr doc_pubs_two_selectors) '''' = (Inr doc_pubs_two_selectors :: error + document)"
    by simp
  have p5: "(\<lambda>h. Inr doc_pubs_five) '''' = (Inr doc_pubs_five :: error + document)"
    by simp
  have l2: "length (livePublications doc_pubs_two_selectors) = 1"
    using th [of _ _ doc_pubs_two_selectors] by (simp add: firstMatching_pubs_two)
  have l5: "length (livePublications doc_pubs_five) = 5"
    using th [of _ _ doc_pubs_five] by (simp add: firstMatching_pubs_five)
  have "parsePublications (\<lambda>h. Inr doc_pubs_two_selectors) '''' emptyPublicationsWidget
       = Inr (emptyPublicationsWidget\<lparr>publications := fallbackPublications\<rparr>)"
    using th [of "\<lambda>h. Inr doc_pubs_two_selectors" "''''" doc_pubs_two_selectors
        emptyPublicationsWidget] p2 l2
    by simp
  moreover have "parsePublications (\<lambda>h. Inr doc_pubs_five) '''' emptyPublicationsWidget
       = Inr (emptyPublicationsWidget\<lparr>publications := livePublications doc_pubs_five\<rparr>)"
    using th [of "\<lambda>h. Inr doc_pubs_five" "''''" doc_pubs_five emptyPublicationsWidget] p5 l5
    by simp
  moreover have "hd (livePublications doc_pubs_five) = toPublication (textElement ''p1'') 0"
    by (simp add: livePublications_def firstMatching_pubs_five)
  ultimately show ?thesis using l2 l5 by (intro conjI)
qed

section \<open>Record ids\<close>

lemma fetched_grants_cases:
  "researchGrants (fetchResearchGrants parser fetched w) = fallbackResearchGrants
   \<or> (\<exists>resp html doc. fetched = Some resp \<and> resp_ok resp \<and> resp_text resp = Some html
        \<and> parser html = Inr doc \<and> liveGrants doc \<noteq> []
        \<and> researchGrants (fetchResearchGrants parser fetched w) = liveGrants doc)"
  by (auto simp: fetchResearchGrants_result split: option.splits sum.splits)

lemma fetched_publications_cases:
  "publications (fetchPublications parser fetched v) = fallbackPublications
   \<or> (\<exists>resp html doc. fetched = Some resp \<and> resp_ok resp \<and> resp_text resp = Some html
        \<and> parser html = Inr doc \<and> 5 \<le> length (livePublications doc)
        \<and> publications (fetchPublications parser fetched v) = livePublications doc)"
  by (auto simp: fetchPublications_result split: option.splits sum.splits)

lemma fetched_grants_ids:
  "map grant_id (researchGrants (fetchResearchGrants parser fetched w)) =
     [1..<Suc (length (researchGrants (fetchResearchGrants parser fetched w)))]"
  using fetched_grants_cases [of parser fetched w]
  by (auto simp only: fallbackResearchGrants_ids liveGrants_ids)

lemma fetched_publications_ids:
  "map pub_id (publications (fetchPublications parser fetched v)) =
     [1..<Suc (length (publications (fetchPublications parser fetched v)))]"
  using fetched_publications_cases [of parser fetched v]
  by (auto simp only: fallbackPublications_ids livePublications_ids)

lemma map_enumerate_nth:
  "map (\<lambda>(i, x). f x i) (enumerate 0 xs) = map (\<lambda>i. f (xs ! i) i) [0..<length xs]"
  by (rule nth_equalityI) (simp_all add: nth_enumerate_eq)

lemma livePublications_nth:
  "livePublications doc =
     map (\<lambda>i. toPublication (firstMatching doc selectors ! i) i)
       [0..<length (firstMatching doc selectors)]"
  unfolding livePublications_def by (rule map_enumerate_nth)

text \<open>
  C6. In every run of either variant the ids of the output records are the integers
  1, 2, ..., n in this order, hence contiguous from 1 and unique. The live grants
  records follow the order of the surviving matched elements, the live publications
  records the order of the matched elements, and the fallback records the order of the
  fallback array.
\<close>

theorem ids_contiguous:
  "map grant_id (researchGrants (fetchResearchGrants parser fetched w)) =
     [1..<Suc (length (researchGrants (fetchResearchGrants parser fetched w)))]
   \<and> distinct (map grant_id (researchGrants (fetchResearchGrants parser fetched w)))
   \<and> map pub_id (publications (fetchPublications parser fetched v)) =
     [1..<Suc (length (publications (fetchPublications parser fetched v)))]
   \<and> distinct (map pub_id (publications (fetchPublications parser fetched v)))
   \<and> (parseResearchGrants parser html w = Inr w' \<longrightarrow>
        map grant_id (researchGrants w') = [1..<Suc (length (researchGrants w'))])
   \<and> (parsePublications parser html v = Inr v' \<longrightarrow>
        map pub_id (publications v') = [1..<Suc (length (publications v'))])
   \<and> map grant_details (forEachElement elements []) = filter survives (candidates elements)
   \<and> livePublications doc =
        map (\<lambda>i. toPublication (firstMatching doc selectors ! i) i)
          [0..<length (firstMatching doc selectors)]"
proof (intro conjI impI)
  show g: "map grant_id (researchGrants (fetchResearchGrants parser fetched w)) =
     [1..<Suc (length (researchGrants (fetchResearchGrants parser fetched w)))]"
    by (rule fetched_grants_ids)
  show "distinct (map grant_id (researchGrants (fetchResearchGrants parser fetched w)))"
    by (simp only: g distinct_upt)
  show p: "map pub_id (publications (fetchPublications parser fetched v)) =
     [1..<Suc (length (publications (fetchPublications parser fetched v)))]"
    by (rule fetched_publications_ids)
  show "distinct (map pub_id (publications (fetchPublications parser fetched v)))"
    by (simp only: p distinct_upt)
  show "map grant_details (forEachElement elements []) = filter survives (candidates elements)"
    by (rule forEachElement_details)
  show "livePublications doc =
        map (\<lambda>i. toPublication (firstMatching doc selectors ! i) i)
          [0..<length (firstMatching doc selectors)]"
    by (rule livePublications_nth)
next
  assume a: "parseResearchGrants parser html w = Inr w'"
  then obtain doc where d: "parser html = Inr doc"
    by (cases "parser html") (simp_all add: parseResearchGrants_Inl)
  with a have "researchGrants w' = fallbackResearchGrants \<or> researchGrants w' = liveGrants doc"
    by (auto simp: parseResearchGrants_Inr split: if_splits)
  then show "map grant_id (researchGrants w') = [1..<Suc (length (researchGrants w'))]"
    by (auto simp only: fallbackResearchGrants_ids liveGrants_ids)
next
  assume a: "parsePublications parser html v = Inr v'"
  then obtain doc where d: "parser html = Inr doc"
    by (cases "parser html") (simp_all add: parsePublications_Inl)
  with a have "publications v' = fallbackPublications \<or> publications v' = livePublications doc"
    by (auto simp: parsePublications_Inr split: if_splits)
  then show "map pub_id (publications v') = [1..<Suc (length (publications v'))]"
    by (auto simp only: fallbackPublications_ids livePublications_ids)
qed
lemma survives_sample_4: "survives ''FRGS project beta''"
  unfolding push_condition_iff [symmetric] by code_simp

lemma doc_three_rows_find:
  "List.find (\<lambda>s. doc_three_rows s \<noteq> []) possibleSelectors = Some ''table tr''"
  by (simp add: doc_three_rows_def docOf_def possibleSelectors_def)

lemma doc_three_rows_table:
  "doc_three_rows ''table tr'' =
     [textElement ''  UiTM Research Grant 2021  '', textElement '' short'',
      textElement ''FRGS project beta'']"
  by (simp add: doc_three_rows_def docOf_def)

lemma candidates_three_rows:
  "candidates [textElement ''  UiTM Research Grant 2021  '', textElement '' short'',
               textElement ''FRGS project beta'']
   = [''UiTM Research Grant 2021'', ''short'', ''FRGS project beta'']"
  by code_simp

lemma liveGrants_three_rows:
  "liveGrants doc_three_rows =
     [grantOf 1 ''UiTM Research Grant 2021'', grantOf 2 ''FRGS project beta'']"
proof -
  have "liveGrants doc_three_rows = forEachElement (doc_three_rows ''table tr'') []"
    by (simp add: liveGrants_def forSelectors_find doc_three_rows_find)
  also have "\<dots> = map (\<lambda>(n, text). grantOf n text)
      (enumerate 1 (filter survives [''UiTM Research Grant 2021'', ''short'', ''FRGS project beta'']))"
    by (simp only: doc_three_rows_table forEachElement_eq candidates_three_rows
        list.size append_Nil add_0)
  also have "\<dots> = [grantOf 1 ''UiTM Research Grant 2021'', grantOf 2 ''FRGS project beta'']"
    by (simp add: survives_sample_1 survives_sample_2 survives_sample_4 numeral_2_eq_2)
  finally show ?thesis .
qed

lemma fetch_three_rows:
  "researchGrants (fetchResearchGrants (\<lambda>h. Inr doc_three_rows) (Some (okResponse ''''))
      emptyGrantsWidget) = liveGrants doc_three_rows"
  by (simp add: fetchResearchGrants_result okResponse_def liveGrants_three_rows)

lemma fetch_pubs_five:
  "publications (fetchPublications (\<lambda>h. Inr doc_pubs_five) (Some (okResponse ''''))
      emptyPublicationsWidget) = livePublications doc_pubs_five"
  by (simp add: fetchPublications_result okResponse_def length_livePublications
      firstMatching_pubs_five)

theorem ids_contiguous_witness:
  "map grant_id (researchGrants (fetchResearchGrants (\<lambda>h. Inr doc_three_rows)
      (Some (okResponse '''')) emptyGrantsWidget)) = [1, 2]
   \<and> map grant_details (researchGrants (fetchResearchGrants (\<lambda>h. Inr doc_three_rows)
      (Some (okResponse '''')) emptyGrantsWidget))
       = [''UiTM Research Grant 2021'', ''FRGS project beta'']
   \<and> map pub_id (publications (fetchPublications (\<lambda>h. Inr doc_pubs_five)
      (Some (okResponse '''')) emptyPublicationsWidget)) = [1, 2, 3, 4, 5]
   \<and> map grant_id (researchGrants (fetchResearchGrants (\<lambda>h. Inr doc_three_rows) None
      emptyGrantsWidget)) = [1, 2, 3, 4, 5, 6, 7]
   \<and> parseResearchGrants (\<lambda>h. Inr doc_three_rows) '''' emptyGrantsWidget
       = Inr (emptyGrantsWidget\<lparr>researchGrants := liveGrants doc_three_rows\<rparr>)
   \<and> map grant_id (researchGrants (emptyGrantsWidget\<lparr>researchGrants := liveGrants doc_three_rows\<rparr>))
       = [1, 2]
   \<and> parsePublications (\<lambda>h. Inr doc_pubs_five) '''' emptyPublicationsWidget
       = Inr (emptyPublicationsWidget\<lparr>publications := livePublications doc_pubs_five\<rparr>)
   \<and> map pub_id (publications (emptyPublicationsWidget\<lparr>publications := livePublications doc_pubs_five\<rparr>))
       = [1, 2, 3, 4, 5]"
proof -
  have u2: "[1..<Suc 2] = [1, 2::nat]" by (simp add: upt_rec)
  have u5: "[1..<Suc 5] = [1, 2, 3, 4, 5::nat]" by (simp add: upt_rec)
  have u7: "[1..<Suc 7] = [1, 2, 3, 4, 5, 6, 7::nat]" by (simp add: upt_rec)
  have lg: "length (liveGrants doc_three_rows) = 2" by (simp add: liveGrants_three_rows)
  have lp: "length (livePublications doc_pubs_five) = 5"
    by (simp add: length_livePublications firstMatching_pubs_five)
  have pg: "parseResearchGrants (\<lambda>h. Inr doc_three_rows) '''' emptyGrantsWidget
       = Inr (emptyGrantsWidget\<lparr>researchGrants := liveGrants doc_three_rows\<rparr>)"
    by (simp add: parseResearchGrants_Inr liveGrants_three_rows)
  have pp: "parsePublications (\<lambda>h. Inr doc_pubs_five) '''' emptyPublicationsWidget
       = Inr (emptyPublicationsWidget\<lparr>publications := livePublications doc_pubs_five\<rparr>)"
    by (simp add: parsePublications_Inr lp)
  note live = ids_contiguous [of "\<lambda>h. Inr doc_three_rows" "Some (okResponse '''')" emptyGrantsWidget
      emptyPublicationsWidget "''''" "emptyGrantsWidget\<lparr>researchGrants := liveGrants doc_three_rows\<rparr>"
      "emptyPublicationsWidget\<lparr>publications := livePublications doc_pubs_five\<rparr>"
      "doc_three_rows ''table tr''" doc_three_rows]
  note live_p = ids_contiguous [of "\<lambda>h. Inr doc_pubs_five" "Some (okResponse '''')" emptyGrantsWidget
      emptyPublicationsWidget "''''" "emptyGrantsWidget\<lparr>researchGrants := liveGrants doc_three_rows\<rparr>"
      "emptyPublicationsWidget\<lparr>publications := livePublications doc_pubs_five\<rparr>"
      "doc_three_rows ''table tr''" doc_pubs_five]
  note dead = ids_contiguous [of "\<lambda>h. Inr doc_three_rows" None emptyGrantsWidget]
  have fd: "researchGrants (fetchResearchGrants (\<lambda>h. Inr doc_three_rows) None emptyGrantsWidget)
      = fallbackResearchGrants"
    by (simp add: fetchResearchGrants_result)
  have rwg: "researchGrants (emptyGrantsWidget\<lparr>researchGrants := liveGrants doc_three_rows\<rparr>)
      = liveGrants doc_three_rows"
    by simp
  have rwp: "publications (emptyPublicationsWidget\<lparr>publications := livePublications doc_pubs_five\<rparr>)
      = livePublications doc_pubs_five"
    by simp
  note live_ids = live [THEN conjunct1]
  note live_p_ids = live_p [THEN conjunct2, THEN conjunct2, THEN conjunct1]
  note dead_ids = dead [THEN conjunct1]
  note parsed_ids = live [THEN conjunct2, THEN conjunct2, THEN conjunct2, THEN conjunct2,
      THEN conjunct1]
  note parsed_p_ids = live_p [THEN conjunct2, THEN conjunct2, THEN conjunct2, THEN conjunct2,
      THEN conjunct2, THEN conjunct1]
  have "map grant_id (researchGrants (fetchResearchGrants (\<lambda>h. Inr doc_three_rows)
      (Some (okResponse '''')) emptyGrantsWidget)) = [1, 2]"
    using live_ids by (simp only: fetch_three_rows lg u2)
  moreover have "map grant_details (researchGrants (fetchResearchGrants (\<lambda>h. Inr doc_three_rows)
      (Some (okResponse '''')) emptyGrantsWidget))
       = [''UiTM Research Grant 2021'', ''FRGS project beta'']"
    by (simp add: fetch_three_rows liveGrants_three_rows grantOf_def)
  moreover have "map pub_id (publications (fetchPublications (\<lambda>h. Inr doc_pubs_five)
      (Some (okResponse '''')) emptyPublicationsWidget)) = [1, 2, 3, 4, 5]"
    using live_p_ids by (simp only: fetch_pubs_five lp u5)
  moreover have "map grant_id (researchGrants (fetchResearchGrants (\<lambda>h. Inr doc_three_rows) None
      emptyGrantsWidget)) = [1, 2, 3, 4, 5, 6, 7]"
    using dead_ids by (simp only: fd length_fallbackResearchGrants u7)
  moreover have "map grant_id (researchGrants (emptyGrantsWidget\<lparr>researchGrants := liveGrants doc_three_rows\<rparr>))
       = [1, 2]"
    using parsed_ids [THEN mp, OF pg] by (simp only: rwg lg u2)
  moreover have "map pub_id (publications (emptyPublicationsWidget\<lparr>publications := livePublications doc_pubs_five\<rparr>))
       = [1, 2, 3, 4, 5]"
    using parsed_p_ids [THEN mp, OF pp] by (simp only: rwp lp u5)
  ultimately show ?thesis using pg pp by (intro conjI)
qed

section \<open>All live or all fallback\<close>

lemma liveGrants_from_elements:
  "\<forall>g \<in> set (liveGrants doc). \<exists>s \<in> set possibleSelectors. \<exists>element \<in> set (doc s).
      g = grantOf (grant_id g) (trim (textContent element))"
proof
  fix g assume g: "g \<in> set (liveGrants doc)"
  show "\<exists>s \<in> set possibleSelectors. \<exists>element \<in> set (doc s).
      g = grantOf (grant_id g) (trim (textContent element))"
  proof (cases "List.find (\<lambda>s. doc s \<noteq> []) possibleSelectors")
    case None
    then have "liveGrants doc = []" by (simp add: liveGrants_def forSelectors_find)
    with g show ?thesis by simp
  next
    case (Some s)
    then have s: "s \<in> set possibleSelectors"
      by (auto simp: find_Some_iff)
    from Some have "liveGrants doc = forEachElement (doc s) []"
      by (simp add: liveGrants_def forSelectors_find)
    with g have "g \<in> set (map (\<lambda>(n, text). grantOf n text)
        (enumerate 1 (filter survives (candidates (doc s)))))"
      by (simp add: forEachElement_eq)
    then obtain n cand where nt: "(n, cand) \<in> set (enumerate 1 (filter survives (candidates (doc s))))"
      and gd: "g = grantOf n cand"
      by auto
    from nt have "snd (n, cand) \<in> snd ` set (enumerate 1 (filter survives (candidates (doc s))))"
      by (rule imageI)
    then have "cand \<in> set (map snd (enumerate 1 (filter survives (candidates (doc s)))))"
      by (simp only: set_map snd_conv)
    then have "cand \<in> set (candidates (doc s))"
      by simp
    then obtain element where e: "element \<in> set (doc s)" and t: "cand = trim (textContent element)"
      by (auto simp: candidates_def)
    from gd have "grant_id g = n" by (simp add: grantOf_def)
    with gd t have "g = grantOf (grant_id g) (trim (textContent element))" by simp
    with s e show ?thesis by blast
  qed
qed

lemma livePublications_from_elements:
  "\<forall>p \<in> set (livePublications doc). \<exists>s \<in> set selectors. \<exists>element \<in> set (doc s).
      p = toPublication element (pub_id p - 1)"
proof
  fix p assume p: "p \<in> set (livePublications doc)"
  show "\<exists>s \<in> set selectors. \<exists>element \<in> set (doc s). p = toPublication element (pub_id p - 1)"
  proof (cases "List.find (\<lambda>s. doc s \<noteq> []) selectors")
    case None
    then have "livePublications doc = []" by (simp add: livePublications_def firstMatching_find)
    with p show ?thesis by simp
  next
    case (Some s)
    then have s: "s \<in> set selectors"
      by (auto simp: find_Some_iff)
    from Some have "firstMatching doc selectors = doc s"
      by (simp add: firstMatching_find)
    with p obtain i element where ie: "(i, element) \<in> set (enumerate 0 (doc s))"
      and pd: "p = toPublication element i"
      by (auto simp: livePublications_def)
    from ie have "snd (i, element) \<in> snd ` set (enumerate 0 (doc s))"
      by (rule imageI)
    then have "element \<in> set (map snd (enumerate 0 (doc s)))"
      by (simp only: set_map snd_conv)
    then have e: "element \<in> set (doc s)"
      by simp
    from pd have "pub_id p = i + 1" by (simp add: toPublication_def Let_def)
    with pd have "p = toPublication element (pub_id p - 1)" by simp
    with s e show ?thesis by blast
  qed
qed

text \<open>
  C9. The record sequence that a fetch leaves is either the static fallback dataset or
  the records built from the matched elements of the fetched document, each of them
  from one matched element; the two are never mixed. A rejected fetch, a non-success
  response status, a body that cannot be read and an exception while parsing each leave
  the complete fallback sequence.
\<close>

theorem all_live_or_all_fallback:
  "(researchGrants (fetchResearchGrants parser fetched w) = fallbackResearchGrants
      \<or> (\<exists>resp html doc. fetched = Some resp \<and> resp_ok resp \<and> resp_text resp = Some html
            \<and> parser html = Inr doc
            \<and> researchGrants (fetchResearchGrants parser fetched w) = liveGrants doc))
   \<and> (publications (fetchPublications parser fetched v) = fallbackPublications
      \<or> (\<exists>resp html doc. fetched = Some resp \<and> resp_ok resp \<and> resp_text resp = Some html
            \<and> parser html = Inr doc
            \<and> publications (fetchPublications parser fetched v) = livePublications doc))
   \<and> (fetched = None \<or> (\<exists>resp. fetched = Some resp \<and> \<not> resp_ok resp)
        \<or> (\<exists>resp. fetched = Some resp \<and> resp_text resp = None)
        \<or> (\<exists>resp html e. fetched = Some resp \<and> resp_text resp = Some html \<and> parser html = Inl e)
       \<longrightarrow> researchGrants (fetchResearchGrants parser fetched w) = fallbackResearchGrants
         \<and> publications (fetchPublications parser fetched v) = fallbackPublications)
   \<and> (\<forall>g \<in> set (liveGrants doc). \<exists>s \<in> set possibleSelectors. \<exists>element \<in> set (doc s).
         g = grantOf (grant_id g) (trim (textContent element)))
   \<and> (\<forall>p \<in> set (livePublications doc). \<exists>s \<in> set selectors. \<exists>element \<in> set (doc s).
         p = toPublication element (pub_id p - 1))"
proof (intro conjI impI)
  show "researchGrants (fetchResearchGrants parser fetched w) = fallbackResearchGrants
      \<or> (\<exists>resp html doc. fetched = Some resp \<and> resp_ok resp \<and> resp_text resp = Some html
            \<and> parser html = Inr doc
            \<and> researchGrants (fetchResearchGrants parser fetched w) = liveGrants doc)"
    using fetched_grants_cases [of parser fetched w] by blast
  show "publications (fetchPublications parser fetched v) = fallbackPublications
      \<or> (\<exists>resp html doc. fetched = Some resp \<and> resp_ok resp \<and> resp_text resp = Some html
            \<and> parser html = Inr doc
            \<and> publications (fetchPublications parser fetched v) = livePublications doc)"
    using fetched_publications_cases [of parser fetched v] by blast
  show "\<forall>g \<in> set (liveGrants doc). \<exists>s \<in> set possibleSelectors. \<exists>element \<in> set (doc s).
         g = grantOf (grant_id g) (trim (textContent element))"
    by (rule liveGrants_from_elements)
  show "\<forall>p \<in> set (livePublications doc). \<exists>s \<in> set selectors. \<exists>element \<in> set (doc s).
         p = toPublication element (pub_id p - 1)"
    by (rule livePublications_from_elements)
next
  assume a: "fetched = None \<or> (\<exists>resp. fetched = Some resp \<and> \<not> resp_ok resp)
        \<or> (\<exists>resp. fetched = Some resp \<and> resp_text resp = None)
        \<or> (\<exists>resp html e. fetched = Some resp \<and> resp_text resp = Some html \<and> parser html = Inl e)"
  then show "researchGrants (fetchResearchGrants parser fetched w) = fallbackResearchGrants"
    by (auto simp: fetchResearchGrants_result)
  from a show "publications (fetchPublications parser fetched v) = fallbackPublications"
    by (auto simp: fetchPublications_result)
qed

theorem all_live_or_all_fallback_witness:
  "researchGrants (fetchResearchGrants (\<lambda>h. Inr doc_three_rows) None emptyGrantsWidget)
     = fallbackResearchGrants
   \<and> publications (fetchPublications (\<lambda>h. Inr doc_pubs_five) None emptyPublicationsWidget)
     = fallbackPublications
   \<and> researchGrants (fetchResearchGrants (\<lambda>h. Inr doc_three_rows)
        (Some \<lparr>resp_ok = False, resp_status = 404, resp_text = Some ''''\<rparr>) emptyGrantsWidget)
     = fallbackResearchGrants
   \<and> researchGrants (fetchResearchGrants (\<lambda>h. Inr doc_three_rows)
        (Some \<lparr>resp_ok = True, resp_status = 200, resp_text = None\<rparr>) emptyGrantsWidget)
     = fallbackResearchGrants
   \<and> publications (fetchPublications (\<lambda>h. Inl ParseError) (Some (okResponse ''''))
        emptyPublicationsWidget)
     = fallbackPublications
   \<and> researchGrants (fetchResearchGrants (\<lambda>h. Inr doc_three_rows) (Some (okResponse ''''))
        emptyGrantsWidget)
     = [grantOf 1 ''UiTM Research Grant 2021'', grantOf 2 ''FRGS project beta'']
   \<and> (\<exists>s \<in> set possibleSelectors. \<exists>element \<in> set (doc_three_rows s).
        grantOf 2 ''FRGS project beta'' = grantOf 2 (trim (textContent element)))"
proof -
  note th = all_live_or_all_fallback
  note failures = th [THEN conjunct2, THEN conjunct2, THEN conjunct1]
  note from_elements = th [THEN conjunct2, THEN conjunct2, THEN conjunct2, THEN conjunct1]
  have "researchGrants (fetchResearchGrants (\<lambda>h. Inr doc_three_rows) None emptyGrantsWidget)
     = fallbackResearchGrants"
    using failures [of None "\<lambda>h. Inr doc_three_rows" emptyGrantsWidget] by blast
  moreover have "publications (fetchPublications (\<lambda>h. Inr doc_pubs_five) None emptyPublicationsWidget)
     = fallbackPublications"
    using failures [of None "\<lambda>h. Inr doc_pubs_five" _ emptyPublicationsWidget] by blast
  moreover have "researchGrants (fetchResearchGrants (\<lambda>h. Inr doc_three_rows)
        (Some \<lparr>resp_ok = False, resp_status = 404, resp_text = Some ''''\<rparr>) emptyGrantsWidget)
     = fallbackResearchGrants"
  proof -
    have "\<exists>resp. Some \<lparr>resp_ok = False, resp_status = 404, resp_text = Some ''''\<rparr> = Some resp
        \<and> \<not> resp_ok resp"
      by simp
    then show ?thesis
      using failures [of "Some \<lparr>resp_ok = False, resp_status = 404, resp_text = Some ''''\<rparr>"
          "\<lambda>h. Inr doc_three_rows" emptyGrantsWidget]
      by blast
  qed
  moreover have "researchGrants (fetchResearchGrants (\<lambda>h. Inr doc_three_rows)
        (Some \<lparr>resp_ok = True, resp_status = 200, resp_text = None\<rparr>) emptyGrantsWidget)
     = fallbackResearchGrants"
  proof -
    have "\<exists>resp. Some \<lparr>resp_ok = True, resp_status = 200, resp_text = None\<rparr> = Some resp
        \<and> resp_text resp = None"
      by simp
    then show ?thesis
      using failures [of "Some \<lparr>resp_ok = True, resp_status = 200, resp_text = None\<rparr>"
          "\<lambda>h. Inr doc_three_rows" emptyGrantsWidget]
      by blast
  qed
  moreover have "publications (fetchPublications (\<lambda>h. Inl ParseError) (Some (okResponse ''''))
        emptyPublicationsWidget) = fallbackPublications"
  proof -
    have "\<exists>resp html e. Some (okResponse '''') = Some resp \<and> resp_text resp = Some html
        \<and> (\<lambda>h. Inl ParseError :: error + document) html = Inl e"
      by (simp add: okResponse_def)
    then show ?thesis
      using failures [of "Some (okResponse '''')" "\<lambda>h. Inl ParseError" _ emptyPublicationsWidget]
      by blast
  qed
  moreover have "researchGrants (fetchResearchGrants (\<lambda>h. Inr doc_three_rows) (Some (okResponse ''''))
        emptyGrantsWidget)
     = [grantOf 1 ''UiTM Research Grant 2021'', grantOf 2 ''FRGS project beta'']"
    by (simp only: fetch_three_rows liveGrants_three_rows)
  moreover have "\<exists>s \<in> set possibleSelectors. \<exists>element \<in> set (doc_three_rows s).
        grantOf 2 ''FRGS project beta'' = grantOf 2 (trim (textContent element))"
  proof -
    have m: "grantOf 2 ''FRGS project beta'' \<in> set (liveGrants doc_three_rows)"
      by (simp add: liveGrants_three_rows)
    have i: "grant_id (grantOf 2 ''FRGS project beta'') = 2" by (simp add: grantOf_def)
    from from_elements [of doc_three_rows, THEN bspec, OF m] show ?thesis
      by (simp only: i)
  qed
  ultimately show ?thesis by (intro conjI)
qed

section \<open>Facts about trimming and line splitting\<close>

lemma trimEnd_prefix:
  "\<exists>ws. u = rev (dropWhile P (rev u)) @ ws \<and> (\<forall>c \<in> set ws. P c)"
proof -
  have "u = rev (takeWhile P (rev u) @ dropWhile P (rev u))"
    by (simp only: takeWhile_dropWhile_id rev_rev_ident)
  then have "u = rev (dropWhile P (rev u)) @ rev (takeWhile P (rev u))"
    by (simp only: rev_append)
  moreover have "\<forall>c \<in> set (rev (takeWhile P (rev u))). P c"
    by (auto dest: set_takeWhileD)
  ultimately show ?thesis by blast
qed

lemma length_trim_le: "length (trim s) \<le> length s"
proof -
  have "length (trim s) \<le> length (dropWhile isWhiteSpace s)"
    unfolding trim_def by (metis length_dropWhile_le length_rev)
  also have "\<dots> \<le> length s" by (rule length_dropWhile_le)
  finally show ?thesis .
qed

lemma trim_no_leading:
  assumes "s \<noteq> []" and "\<not> isWhiteSpace (hd s)"
  shows "trim s \<noteq> []" and "\<exists>ws. s = trim s @ ws" and "hd (trim s) = hd s"
proof -
  from assms have d: "dropWhile isWhiteSpace s = s" by (cases s) simp_all
  then have t: "trim s = rev (dropWhile isWhiteSpace (rev s))" by (simp add: trim_def)
  from assms have "hd s \<in> set (rev s)" by simp
  with assms(2) have "\<not> (\<forall>c \<in> set (rev s). isWhiteSpace c)" by blast
  then have "dropWhile isWhiteSpace (rev s) \<noteq> []"
    by (simp only: dropWhile_eq_Nil_conv) simp
  then show n: "trim s \<noteq> []" by (simp add: t)
  from trimEnd_prefix [of s isWhiteSpace] show p: "\<exists>ws. s = trim s @ ws"
    by (auto simp: t)
  from p n show "hd (trim s) = hd s" by (metis hd_append2)
qed

lemma hd_trimmed:
  assumes "text = trim text" and "text \<noteq> []"
  shows "\<not> isWhiteSpace (hd text)"
proof -
  define u where "u = dropWhile isWhiteSpace text"
  have t: "trim text = rev (dropWhile isWhiteSpace (rev u))" by (simp add: trim_def u_def)
  from trimEnd_prefix [of u isWhiteSpace] obtain ws where u: "u = trim text @ ws"
    by (auto simp: t)
  from assms have "trim text \<noteq> []" by simp
  with u have un: "u \<noteq> []" and h: "hd u = hd (trim text)" by simp_all
  from un have "\<not> isWhiteSpace (hd u)" unfolding u_def by (rule hd_dropWhile)
  with h assms(1) show ?thesis by metis
qed

lemma split_nl_not_Nil: "split_nl s \<noteq> []"
  by (induction s) (auto split: list.splits)

lemma hd_split_nl: "hd (split_nl s) = takeWhile (\<lambda>c. c \<noteq> CHR 0x0A) s"
  by (induction s) (auto split: list.splits simp: split_nl_not_Nil)

lemma nonEmptyLines_first:
  assumes "text \<noteq> []" and "\<not> isWhiteSpace (hd text)"
  shows "\<exists>ls. nonEmptyLines text = takeWhile (\<lambda>c. c \<noteq> CHR 0x0A) text # ls"
proof -
  define l where "l = takeWhile (\<lambda>c. c \<noteq> CHR 0x0A) text"
  from assms have nl: "hd text \<noteq> CHR 0x0A" by (auto simp: isWhiteSpace_def)
  with assms(1) have l: "l \<noteq> []" and hl: "hd l = hd text"
    unfolding l_def by (cases "text"; simp)+
  with assms(2) have "trim l \<noteq> []" by (simp add: trim_no_leading(1))
  then have keep: "length (trim l) > 0" by simp
  obtain rest where sp: "split_nl text = l # rest"
    using hd_split_nl [of "text"] split_nl_not_Nil [of "text"]
    by (cases "split_nl text") (simp_all add: l_def)
  then have "nonEmptyLines text = l # filter (\<lambda>line. length (trim line) > 0) rest"
    using keep by (simp add: nonEmptyLines_def)
  then show ?thesis unfolding l_def by blast
qed

lemma extractTitle_long:
  assumes "nonEmptyLines text = l # ls" and "length (trim l) > 100"
  shows "extractTitle text = take 100 (trim l) @ ''...''"
proof -
  from assms(2) length_trim_le [of l] have "length l > 100" by simp
  with assms(1) show ?thesis by (simp add: extractTitle_def substring0_def)
qed

lemma extractTitle_short:
  assumes "nonEmptyLines text = l # ls" and "length l \<le> 100"
  shows "extractTitle text = trim l"
proof -
  from assms(2) length_trim_le [of l] have "length (trim l) \<le> 100" by simp
  with assms show ?thesis by (simp add: extractTitle_def substring0_def)
qed

lemma first_line_of_candidate:
  assumes "text = trim text" and "text \<noteq> []"
  shows "\<exists>ls. nonEmptyLines text = takeWhile (\<lambda>c. c \<noteq> CHR 0x0A) text # ls"
    and "\<exists>ws. takeWhile (\<lambda>c. c \<noteq> CHR 0x0A) text = trim (takeWhile (\<lambda>c. c \<noteq> CHR 0x0A) text) @ ws"
proof -
  define l where "l = takeWhile (\<lambda>c. c \<noteq> CHR 0x0A) text"
  from assms have h: "\<not> isWhiteSpace (hd text)" by (rule hd_trimmed)
  with assms(2) show "\<exists>ls. nonEmptyLines text = takeWhile (\<lambda>c. c \<noteq> CHR 0x0A) text # ls"
    by (rule nonEmptyLines_first)
  from h have nl: "hd text \<noteq> CHR 0x0A" by (auto simp: isWhiteSpace_def)
  with assms(2) have "l \<noteq> []" and "hd l = hd text"
    unfolding l_def by (cases "text"; simp)+
  with h have "\<exists>ws. l = trim l @ ws" by (simp add: trim_no_leading(2))
  then show "\<exists>ws. takeWhile (\<lambda>c. c \<noteq> CHR 0x0A) text = trim (takeWhile (\<lambda>c. c \<noteq> CHR 0x0A) text) @ ws"
    unfolding l_def .
qed

lemma extractTitle_candidate_long:
  assumes "text = trim text" and "text \<noteq> []" and "nonEmptyLines text = l # ls"
    and "length (trim l) > 100"
  shows "extractTitle text = take 100 l @ ''...''"
proof -
  from first_line_of_candidate(1) [OF assms(1,2)] assms(3)
  have l: "l = takeWhile (\<lambda>c. c \<noteq> CHR 0x0A) text" by auto
  from first_line_of_candidate(2) [OF assms(1,2)] obtain ws where "l = trim l @ ws"
    unfolding l by blast
  then have "take 100 l = take 100 (trim l @ ws)" by simp
  also have "\<dots> = take 100 (trim l)" using assms(4) by simp
  finally show ?thesis using extractTitle_long [OF assms(3,4)] by simp
qed

text \<open>
  C10. A text that is already trimmed and longer than 10 code units has a non-empty
  list of non-empty lines, whose first member is the text up to its first line feed; so
  \<open>extractTitle\<close> returns from its first-line branch, and its last \<open>return\<close>, which
  titles the whole text, is not reached on such a text.
\<close>

theorem first_line_branch_taken:
  "text = trim text \<and> length text > 10 \<longrightarrow>
     nonEmptyLines text \<noteq> []
     \<and> hd (nonEmptyLines text) = takeWhile (\<lambda>c. c \<noteq> CHR 0x0A) text
     \<and> extractTitle text =
         substring0 (trim (hd (nonEmptyLines text))) 100 @
           (if length (hd (nonEmptyLines text)) > 100 then ''...'' else '''')"
proof
  assume a: "text = trim text \<and> length text > 10"
  then have "text \<noteq> []" by auto
  with a obtain ls where n: "nonEmptyLines text = takeWhile (\<lambda>c. c \<noteq> CHR 0x0A) text # ls"
    using first_line_of_candidate(1) by blast
  then show "nonEmptyLines text \<noteq> []
     \<and> hd (nonEmptyLines text) = takeWhile (\<lambda>c. c \<noteq> CHR 0x0A) text
     \<and> extractTitle text =
         substring0 (trim (hd (nonEmptyLines text))) 100 @
           (if length (hd (nonEmptyLines text)) > 100 then ''...'' else '''')"
    by (simp add: extractTitle_def)
qed

lemma trim_sample: "trim ''UiTM Research Grant 2021'' = ''UiTM Research Grant 2021''"
  by code_simp

theorem first_line_branch_taken_witness:
  "''UiTM Research Grant 2021'' = trim ''UiTM Research Grant 2021''
   \<and> length ''UiTM Research Grant 2021'' > 10
   \<and> nonEmptyLines ''UiTM Research Grant 2021'' \<noteq> []
   \<and> hd (nonEmptyLines ''UiTM Research Grant 2021'') = ''UiTM Research Grant 2021''
   \<and> extractTitle ''UiTM Research Grant 2021'' = ''UiTM Research Grant 2021''"
proof -
  have t: "''UiTM Research Grant 2021'' = trim ''UiTM Research Grant 2021''"
    by (simp only: trim_sample)
  have n: "length ''UiTM Research Grant 2021'' > 10" by simp
  have tw: "takeWhile (\<lambda>c. c \<noteq> CHR 0x0A) ''UiTM Research Grant 2021'' = ''UiTM Research Grant 2021''"
    by simp
  from first_line_branch_taken [of "''UiTM Research Grant 2021''"] t n
  have r: "nonEmptyLines ''UiTM Research Grant 2021'' \<noteq> []
     \<and> hd (nonEmptyLines ''UiTM Research Grant 2021'') =
        takeWhile (\<lambda>c. c \<noteq> CHR 0x0A) ''UiTM Research Grant 2021''
     \<and> extractTitle ''UiTM Research Grant 2021'' =
         substring0 (trim (hd (nonEmptyLines ''UiTM Research Grant 2021''))) 100 @
           (if length (hd (nonEmptyLines ''UiTM Research Grant 2021'')) > 100 then ''...'' else '''')"
    by blast
  then have h: "hd (nonEmptyLines ''UiTM Research Grant 2021'') = ''UiTM Research Grant 2021''"
    by (simp only: tw)
  from r have "extractTitle ''UiTM Research Grant 2021'' = ''UiTM Research Grant 2021''"
    by (simp only: h trim_sample substring0_def) simp
  with t n r h show ?thesis by blast
qed

section \<open>Title truncation\<close>

lemma pub_title_cut:
  "pub_title (toPublication element index) =
     (if length (publicationTitle element) > 150
      then take 150 (publicationTitle element) @ ''...'' else publicationTitle element)"
  by (simp add: toPublication_def publicationTitle_def Let_def substring0_def)

text \<open>
  C3 as stated does not hold. A candidate whose first non-empty line ends in a space:
  the line has 20 code units, under the limit, and the title is not the line unchanged
  but the line without the space.
\<close>

theorem title_unchanged_counterexample:
  "trim ''UiTM research grant \<newline>details of the grant'' = ''UiTM research grant \<newline>details of the grant''
   \<and> 10 < length ''UiTM research grant \<newline>details of the grant''
   \<and> isResearchGrantText ''UiTM research grant \<newline>details of the grant''
   \<and> nonEmptyLines ''UiTM research grant \<newline>details of the grant''
       = [''UiTM research grant '', ''details of the grant'']
   \<and> length ''UiTM research grant '' \<le> 100
   \<and> extractTitle ''UiTM research grant \<newline>details of the grant'' = ''UiTM research grant''
   \<and> extractTitle ''UiTM research grant \<newline>details of the grant'' \<noteq> ''UiTM research grant ''"
  by code_simp

text \<open>
  The marker is decided on the length of the line as split, the cut is made on the
  trimmed line: a first line of 5 letters and 96 spaces is titled with the marker
  though nothing was cut.
\<close>

lemma extractTitle_marker_on_uncut_line:
  "length (''grant'' @ replicate 96 CHR '' '') = 101
   \<and> nonEmptyLines (''grant'' @ replicate 96 CHR '' '' @ ''\<newline>2021'')
       = [''grant'' @ replicate 96 CHR '' '', ''2021'']
   \<and> extractTitle (''grant'' @ replicate 96 CHR '' '' @ ''\<newline>2021'') = ''grant...''"
  by code_simp


text \<open>
  C3, as the code has it. The title of a grants text is made from its first non-empty
  line with the white space at both ends removed. When that trimmed line is longer than
  100 code units the title is its first 100 code units followed by "..."; for a
  candidate, which is a trimmed text, these are the first 100 code units of the line
  itself. When the line is at most 100 code units long the title is the trimmed line,
  with no marker. The title of a publication is its title string (the trimmed text of
  the title element, else the trimmed first line of the element, else
  "Unknown Title"), cut to 150 code units and followed by "..." when it is longer than
  150, and unchanged otherwise.
\<close>

theorem title_truncation:
  "(nonEmptyLines text = l # ls \<and> length (trim l) > 100 \<longrightarrow>
      extractTitle text = take 100 (trim l) @ ''...'')
   \<and> (text = trim text \<and> text \<noteq> [] \<and> nonEmptyLines text = l # ls \<and> length (trim l) > 100 \<longrightarrow>
      extractTitle text = take 100 l @ ''...'')
   \<and> (nonEmptyLines text = l # ls \<and> length l \<le> 100 \<longrightarrow> extractTitle text = trim l)
   \<and> pub_title (toPublication element index) =
       (if length (publicationTitle element) > 150
        then take 150 (publicationTitle element) @ ''...'' else publicationTitle element)"
  using extractTitle_long [of "text" l ls] extractTitle_candidate_long [of "text" l ls]
    extractTitle_short [of "text" l ls] pub_title_cut [of element index]
  by blast

lemma long_line_sample:
  "trim ''Coupled Hybrid Feature Extraction And Classification Of Radar Reflectivity Images For Convective-stratiform Tropical Rainfall Estimates''
     = ''Coupled Hybrid Feature Extraction And Classification Of Radar Reflectivity Images For Convective-stratiform Tropical Rainfall Estimates''
   \<and> nonEmptyLines ''Coupled Hybrid Feature Extraction And Classification Of Radar Reflectivity Images For Convective-stratiform Tropical Rainfall Estimates''
     = [''Coupled Hybrid Feature Extraction And Classification Of Radar Reflectivity Images For Convective-stratiform Tropical Rainfall Estimates'']
   \<and> take 100 ''Coupled Hybrid Feature Extraction And Classification Of Radar Reflectivity Images For Convective-stratiform Tropical Rainfall Estimates''
     = ''Coupled Hybrid Feature Extraction And Classification Of Radar Reflectivity Images For Convective-str''"
  by code_simp

lemma short_line_sample:
  "nonEmptyLines ''UiTM research grant \<newline>details of the grant''
     = [''UiTM research grant '', ''details of the grant'']
   \<and> trim ''UiTM research grant '' = ''UiTM research grant''"
  by code_simp

lemma publicationTitle_sample:
  "publicationTitle (textElement (replicate 151 CHR ''x'')) = replicate 151 CHR ''x''"
  by code_simp

theorem title_truncation_witness:
  "extractTitle ''Coupled Hybrid Feature Extraction And Classification Of Radar Reflectivity Images For Convective-stratiform Tropical Rainfall Estimates''
     = ''Coupled Hybrid Feature Extraction And Classification Of Radar Reflectivity Images For Convective-str...''
   \<and> extractTitle ''UiTM research grant \<newline>details of the grant'' = ''UiTM research grant''
   \<and> pub_title (toPublication (textElement (replicate 151 CHR ''x'')) 0)
       = replicate 150 CHR ''x'' @ ''...''"
proof -
  let ?long = "''Coupled Hybrid Feature Extraction And Classification Of Radar Reflectivity Images For Convective-stratiform Tropical Rainfall Estimates''"
  let ?short = "''UiTM research grant \<newline>details of the grant''"
  have t: "?long = trim ?long" using long_line_sample by simp
  have ne: "?long \<noteq> []" by simp
  have n: "nonEmptyLines ?long = ?long # []" using long_line_sample by simp
  have len: "length (trim ?long) > 100" using long_line_sample by simp
  have tk: "take 100 ?long = ''Coupled Hybrid Feature Extraction And Classification Of Radar Reflectivity Images For Convective-str''"
    using long_line_sample by simp
  have "extractTitle ?long = take 100 ?long @ ''...''"
    using title_truncation [of ?long ?long "[]", THEN conjunct2, THEN conjunct1] t ne n len
    by blast
  then have a: "extractTitle ?long = ''Coupled Hybrid Feature Extraction And Classification Of Radar Reflectivity Images For Convective-str...''"
    by (simp only: tk) simp
  have sn: "nonEmptyLines ?short = ''UiTM research grant '' # [''details of the grant'']"
    using short_line_sample by simp
  have sl: "length ''UiTM research grant '' \<le> 100" by simp
  have "extractTitle ?short = trim ''UiTM research grant ''"
    using title_truncation [of ?short "''UiTM research grant ''" "[''details of the grant'']",
        THEN conjunct2, THEN conjunct2, THEN conjunct1] sn sl
    by blast
  then have b: "extractTitle ?short = ''UiTM research grant''"
    using short_line_sample by simp
  have "pub_title (toPublication (textElement (replicate 151 CHR ''x'')) 0) =
      (if length (publicationTitle (textElement (replicate 151 CHR ''x''))) > 150
       then take 150 (publicationTitle (textElement (replicate 151 CHR ''x''))) @ ''...''
       else publicationTitle (textElement (replicate 151 CHR ''x'')))"
    using title_truncation [of _ _ _ "textElement (replicate 151 CHR ''x'')" 0] by blast
  then have c: "pub_title (toPublication (textElement (replicate 151 CHR ''x'')) 0)
       = replicate 150 CHR ''x'' @ ''...''"
    by (simp only: publicationTitle_sample) simp
  from a b c show ?thesis by (intro conjI)
qed

end
